theory Spec2Isabelle
  imports Complex_Main "HOL-Library.AList" "HOL-Library.Char_ord" "HOL-Library.List_Lexorder"
    "HOL-Library.Product_Lexorder"
begin

section \<open>Order book engine: the American-odds comparator\<close>

text \<open>
  \<^verbatim>\<open>MarketDataManager._is_better_odds(new_odds, current_odds)\<close> of
  \<^verbatim>\<open>src/data/market_data_manager.py\<close>. Odds are \<^verbatim>\<open>Optional[int]\<close>: \<open>None\<close> is an
  unpriced ("on request") quote. The three \<open>None\<close> tests come first, then the
  \<open>if\<close>/\<open>elif\<close> chain on the signs, in the order of the source.
\<close>

fun is_better_odds :: "int option \<Rightarrow> int option \<Rightarrow> bool" where
  "is_better_odds None None = False"
| "is_better_odds None (Some current_odds) = False"
| "is_better_odds (Some new_odds) None = True"
| "is_better_odds (Some new_odds) (Some current_odds) =
     (if new_odds > 0 \<and> current_odds > 0 then new_odds > current_odds
      else if new_odds < 0 \<and> current_odds < 0 then \<bar>new_odds\<bar> < \<bar>current_odds\<bar>
      else if new_odds > 0 \<and> current_odds < 0 then True
      else if new_odds < 0 \<and> current_odds > 0 then False
      else False)"

section \<open>Python values used by the models\<close>

text \<open>
  The dictionaries of the source keep their insertion order, so a \<^verbatim>\<open>dict\<close> is an
  association list with distinct keys: \<open>AList.update\<close> is \<^verbatim>\<open>d[k] = v\<close> (an existing key
  keeps its place, a new key goes to the end), \<open>AList.delete\<close> is \<^verbatim>\<open>d.pop(k, None)\<close>,
  \<open>map_of\<close> is \<^verbatim>\<open>d.get(k)\<close>. Python's \<^verbatim>\<open>float\<close> is modelled by \<open>real\<close>: the
  properties below are about which values are stored, compared and summed, not about
  rounding.
\<close>

datatype py_value = PyInt int | PyStr string

type_synonym py_dict = "(string \<times> py_value) list"

fun truthy :: "py_value \<Rightarrow> bool" where
  "truthy (PyInt i) = (i \<noteq> 0)"
| "truthy (PyStr s) = (s \<noteq> [])"

fun str_nat :: "nat \<Rightarrow> string" where
  "str_nat n = (if n < 10 then [''0123456789'' ! n]
                else str_nat (n div 10) @ [''0123456789'' ! (n mod 10)])"

declare str_nat.simps [simp del]

definition str_int :: "int \<Rightarrow> string" where
  "str_int i = (if i < 0 then ''-'' @ str_nat (nat (- i)) else str_nat (nat i))"

fun py_str :: "py_value \<Rightarrow> string" where
  "py_str (PyInt i) = str_int i"
| "py_str (PyStr s) = s"

section \<open>Wager lifecycle manager\<close>

text \<open>
  \<^verbatim>\<open>src/exchanges/prophet_sports_api.py\<close>: \<^verbatim>\<open>WagerStatus\<close> and the \<^verbatim>\<open>Wager\<close>
  dataclass; \<^verbatim>\<open>src/config/settings.py\<close>: \<^verbatim>\<open>TradingConfig\<close>;
  \<^verbatim>\<open>src/core/wager_manager.py\<close>: \<^verbatim>\<open>WagerRecord\<close> and \<^verbatim>\<open>WagerManager\<close>.
\<close>

datatype WagerStatus = PENDING | OPEN | MATCHED | CANCELLED | SETTLED

record Wager =
  external_id :: string
  line_id :: int
  odds :: int
  stake :: real
  selection_id :: int
  selection_name :: string
  status :: WagerStatus
  wager_id :: "int option"
  filled_stake :: real
  timestamp :: "real option"

record WagerRecord =
  wager :: Wager
  created_at :: real
  updated_at :: real
  strategy_name :: string
  market_context :: py_dict

record TradingConfig =
  dry_run :: bool
  max_stake_per_wager :: real
  max_total_exposure :: real
  min_odds :: int
  max_odds :: int
  default_stake :: real
  wager_frequency_seconds :: int
  max_concurrent_wagers :: int

record WagerManager =
  trading_config :: TradingConfig
  active_wagers :: "(string \<times> WagerRecord) list"
  wager_history :: "WagerRecord list"
  pending_placements :: "(string \<times> Wager) list"
  pending_cancellations :: "(string \<times> string) list"
  total_placed :: int
  total_cancelled :: int
  total_matched :: int
  total_settled :: int

text \<open>\<^verbatim>\<open>WagerManager.__init__\<close>: empty tables, counters at zero.\<close>

definition WagerManager_init :: "TradingConfig \<Rightarrow> WagerManager" where
  "WagerManager_init cfg =
     \<lparr>trading_config = cfg, active_wagers = [], wager_history = [],
      pending_placements = [], pending_cancellations = [],
      total_placed = 0, total_cancelled = 0, total_matched = 0, total_settled = 0\<rparr>"

text \<open>
  The exchange transport (\<^verbatim>\<open>self.api\<close>) is the environment. Each awaited transport
  call is answered by a reply that is an input of the model: the value returned
  (\<open>Returns\<close>), an \<^verbatim>\<open>Exception\<close> (\<open>Raises\<close>), or a \<^verbatim>\<open>BaseException\<close> that is not an
  \<^verbatim>\<open>Exception\<close>, such as the cancellation of the task at the \<^verbatim>\<open>await\<close>
  (\<open>Interrupts\<close>). The manager's methods catch \<^verbatim>\<open>Exception\<close> only, so their outcome is
  a returned value (\<open>Result\<close>) or an exception that leaves the method (\<open>Uncaught\<close>). The
  calls a manager operation makes are part of its result.
\<close>

datatype 'a api_reply = Returns 'a | Raises | Interrupts

datatype 'r outcome = Result 'r | Uncaught

datatype api_call = ApiPlaceWager Wager | ApiCancelWager string | ApiCancelAllWagers

text \<open>
  Stakes and limits are Python floats, modelled by the reals they denote. Comparisons
  of floats are exact; what rounds is the arithmetic, which is a parameter: the
  built-in \<^verbatim>\<open>sum\<close> of a sequence of floats, the float addition and the float
  multiplication. \<open>exact_ops\<close> is the arithmetic without rounding, with which float
  arithmetic agrees on the small whole numbers of the worked examples.
\<close>

record float_ops =
  fsum :: "real list \<Rightarrow> real"
  fadd :: "real \<Rightarrow> real \<Rightarrow> real"
  fmul :: "real \<Rightarrow> real \<Rightarrow> real"

definition exact_ops :: float_ops where
  "exact_ops = \<lparr>fsum = sum_list, fadd = (+), fmul = (*)\<rparr>"

text \<open>
  \<^verbatim>\<open>get_total_exposure\<close>: \<^verbatim>\<open>sum(record.wager.stake for record in self.active_wagers.values())\<close>,
  under a given float arithmetic (\<open>get_total_exposure_fl\<close>) and without rounding
  (\<open>get_total_exposure\<close>).
\<close>

definition get_total_exposure_fl :: "float_ops \<Rightarrow> WagerManager \<Rightarrow> real" where
  "get_total_exposure_fl ops m =
     fsum ops (map (\<lambda>record. stake (wager record)) (map snd (active_wagers m)))"

definition get_total_exposure :: "WagerManager \<Rightarrow> real" where
  "get_total_exposure m = get_total_exposure_fl exact_ops m"

text \<open>\<^verbatim>\<open>get_exposure_by_event\<close>: the same sum over the records whose context has that event id.\<close>

definition get_exposure_by_event :: "float_ops \<Rightarrow> WagerManager \<Rightarrow> py_value \<Rightarrow> real" where
  "get_exposure_by_event ops m event_id =
     fsum ops (map (\<lambda>record. stake (wager record))
       (filter (\<lambda>record. map_of (market_context record) ''event_id'' = Some event_id)
          (map snd (active_wagers m))))"

text \<open>\<^verbatim>\<open>_validate_wager\<close>: stake limits, then odds limits.\<close>

definition validate_wager :: "WagerManager \<Rightarrow> Wager \<Rightarrow> bool" where
  "validate_wager m w =
     (if stake w \<le> 0 then False
      else if stake w > max_stake_per_wager (trading_config m) then False
      else if \<not> (min_odds (trading_config m) \<le> Wager.odds w
                 \<and> Wager.odds w \<le> max_odds (trading_config m)) then False
      else True)"

text \<open>\<^verbatim>\<open>_check_position_limits\<close>: total exposure limit, then concurrent wager limit.\<close>

definition check_position_limits :: "float_ops \<Rightarrow> WagerManager \<Rightarrow> Wager \<Rightarrow> bool" where
  "check_position_limits ops m w =
     (let current_exposure = get_total_exposure_fl ops m in
      if fadd ops current_exposure (stake w) > max_total_exposure (trading_config m) then False
      else if int (length (active_wagers m)) \<ge> max_concurrent_wagers (trading_config m) then False
      else True)"

text \<open>
  \<^verbatim>\<open>place_wager\<close> has one suspension point, the awaited \<^verbatim>\<open>self.api.place_wager(wager)\<close>.
  \<open>place_wager_begin\<close> is the code up to it: \<open>Inl\<close> is the early \<^verbatim>\<open>return None\<close> of a
  failed validation or limit check, \<open>Inr\<close> is the manager with the wager registered in
  \<^verbatim>\<open>pending_placements\<close>, at which point the transport is called.
  \<open>place_wager_resume\<close> is the code after the reply: a truthy id creates the record and
  counts it, any returned value is handed back after the pending entry is popped, an
  \<^verbatim>\<open>Exception\<close> pops the pending entry and returns \<open>None\<close>, and any other exception
  leaves the method at the \<^verbatim>\<open>await\<close>, the pending entry still registered. The two
  clock readings of the record are one reading \<open>now\<close>.
\<close>

definition place_wager_begin ::
  "float_ops \<Rightarrow> WagerManager \<Rightarrow> Wager \<Rightarrow> WagerManager + WagerManager" where
  "place_wager_begin ops m w =
     (if \<not> validate_wager m w then Inl m
      else if \<not> check_position_limits ops m w then Inl m
      else Inr (m\<lparr>pending_placements := AList.update (external_id w) w (pending_placements m)\<rparr>))"

definition id_truthy :: "int option \<Rightarrow> bool" where
  "id_truthy r = (case r of None \<Rightarrow> False | Some i \<Rightarrow> i \<noteq> 0)"

definition place_wager_resume ::
  "WagerManager \<Rightarrow> Wager \<Rightarrow> string \<Rightarrow> py_dict option \<Rightarrow> real \<Rightarrow> int option api_reply
    \<Rightarrow> int option outcome \<times> WagerManager" where
  "place_wager_resume m w strategy ctx now reply =
     (case reply of
        Interrupts \<Rightarrow> (Uncaught, m)
      | Raises \<Rightarrow>
          (Result None,
           m\<lparr>pending_placements := AList.delete (external_id w) (pending_placements m)\<rparr>)
      | Returns wid \<Rightarrow>
          (let wager_record =
                 \<lparr>wager = w, created_at = now, updated_at = now, strategy_name = strategy,
                  market_context = (case ctx of None \<Rightarrow> [] | Some c \<Rightarrow> c)\<rparr>;
               m1 = (if id_truthy wid
                     then m\<lparr>active_wagers :=
                              AList.update (external_id w) wager_record (active_wagers m),
                            total_placed := total_placed m + 1\<rparr>
                     else m)
           in (Result wid, m1\<lparr>pending_placements :=
                                AList.delete (external_id w) (pending_placements m1)\<rparr>)))"

definition place_wager ::
  "float_ops \<Rightarrow> WagerManager \<Rightarrow> Wager \<Rightarrow> string \<Rightarrow> py_dict option \<Rightarrow> real
    \<Rightarrow> int option api_reply \<Rightarrow> int option outcome \<times> api_call list \<times> WagerManager" where
  "place_wager ops m w strategy ctx now reply =
     (case place_wager_begin ops m w of
        Inl m' \<Rightarrow> (Result None, [], m')
      | Inr m' \<Rightarrow>
          (let (r, m'') = place_wager_resume m' w strategy ctx now reply
           in (r, [ApiPlaceWager w], m'')))"

text \<open>
  \<^verbatim>\<open>cancel_wager\<close>: an id that is not active is refused without a transport call.
  Otherwise the reason is registered, the transport is called, and on success the record
  leaves the active table for the history with status \<open>CANCELLED\<close>.
\<close>

definition cancelled_at :: "real \<Rightarrow> WagerRecord \<Rightarrow> WagerRecord" where
  "cancelled_at now wager_record =
     wager_record\<lparr>updated_at := now, wager := (wager wager_record)\<lparr>status := CANCELLED\<rparr>\<rparr>"

definition cancel_wager ::
  "WagerManager \<Rightarrow> string \<Rightarrow> string \<Rightarrow> real \<Rightarrow> bool api_reply
    \<Rightarrow> bool outcome \<times> api_call list \<times> WagerManager" where
  "cancel_wager m ext_id reason now reply =
     (case map_of (active_wagers m) ext_id of
        None \<Rightarrow> (Result False, [], m)
      | Some wager_record \<Rightarrow>
          (let m1 = m\<lparr>pending_cancellations :=
                       AList.update ext_id reason (pending_cancellations m)\<rparr>
           in case reply of
                Interrupts \<Rightarrow> (Uncaught, [ApiCancelWager ext_id], m1)
              | Raises \<Rightarrow>
                  (Result False, [ApiCancelWager ext_id],
                   m1\<lparr>pending_cancellations := AList.delete ext_id (pending_cancellations m1)\<rparr>)
              | Returns success \<Rightarrow>
                  (let m2 = (if success
                             then m1\<lparr>active_wagers := AList.delete ext_id (active_wagers m1),
                                     wager_history :=
                                       wager_history m1 @ [cancelled_at now wager_record],
                                     total_cancelled := total_cancelled m1 + 1\<rparr>
                             else m1)
                   in (Result success, [ApiCancelWager ext_id],
                       m2\<lparr>pending_cancellations :=
                            AList.delete ext_id (pending_cancellations m2)\<rparr>))))"

text \<open>\<^verbatim>\<open>cancel_all_wagers\<close>: one transport call; on success every active record moves to the history.\<close>

definition cancel_all_wagers ::
  "WagerManager \<Rightarrow> string \<Rightarrow> real \<Rightarrow> bool api_reply
    \<Rightarrow> bool outcome \<times> api_call list \<times> WagerManager" where
  "cancel_all_wagers m reason now reply =
     (case reply of
        Interrupts \<Rightarrow> (Uncaught, [ApiCancelAllWagers], m)
      | Raises \<Rightarrow> (Result False, [ApiCancelAllWagers], m)
      | Returns success \<Rightarrow>
          (Result success, [ApiCancelAllWagers],
           if success
           then m\<lparr>wager_history :=
                     wager_history m @ map (cancelled_at now) (map snd (active_wagers m)),
                   total_cancelled := total_cancelled m + int (length (active_wagers m)),
                   active_wagers := []\<rparr>
           else m))"

text \<open>
  A sequence of calls on the manager, each with the clock reading and the transport's
  reply it meets; \<open>run_fl\<close> threads the manager through them under a given float
  arithmetic, \<open>run\<close> without rounding.
\<close>

datatype manager_call =
    PlaceWager Wager string "py_dict option" real "int option api_reply"
  | CancelWager string string real "bool api_reply"
  | CancelAllWagers string real "bool api_reply"

fun step :: "float_ops \<Rightarrow> WagerManager \<Rightarrow> manager_call \<Rightarrow> WagerManager" where
  "step ops m (PlaceWager w strategy ctx now reply) =
     snd (snd (place_wager ops m w strategy ctx now reply))"
| "step ops m (CancelWager ext_id reason now reply) =
     snd (snd (cancel_wager m ext_id reason now reply))"
| "step ops m (CancelAllWagers reason now reply) =
     snd (snd (cancel_all_wagers m reason now reply))"

definition run_fl :: "float_ops \<Rightarrow> WagerManager \<Rightarrow> manager_call list \<Rightarrow> WagerManager" where
  "run_fl ops m calls = foldl (step ops) m calls"

definition run :: "WagerManager \<Rightarrow> manager_call list \<Rightarrow> WagerManager" where
  "run m calls = run_fl exact_ops m calls"

section \<open>Risk manager\<close>

text \<open>
  \<^verbatim>\<open>src/config/settings.py\<close>: \<^verbatim>\<open>RiskConfig\<close>; \<^verbatim>\<open>src/risk/risk_manager.py\<close>:
  \<^verbatim>\<open>RiskManager.__init__\<close> and \<^verbatim>\<open>RiskManager.check_wager_risk\<close>. The manager holds
  a reference to the wager manager, which is a parameter here. A breach entry is its
  value, limit and time.
\<close>

record RiskConfig =
  max_daily_loss :: real
  max_position_size :: real
  stop_loss_percentage :: real
  max_drawdown :: real
  position_limits :: "(string \<times> real) list"

record RiskManager =
  config :: RiskConfig
  daily_pnl :: real
  session_start_time :: real
  risk_breaches :: "(real \<times> real \<times> real) list"

definition RiskManager_init :: "RiskConfig \<Rightarrow> real \<Rightarrow> RiskManager" where
  "RiskManager_init cfg now =
     \<lparr>config = cfg, daily_pnl = 0, session_start_time = now, risk_breaches = []\<rparr>"

definition check_wager_risk ::
  "float_ops \<Rightarrow> RiskManager \<Rightarrow> WagerManager \<Rightarrow> Wager \<Rightarrow> py_dict option \<Rightarrow> bool" where
  "check_wager_risk ops rm wm w ctx =
     (if stake w > max_position_size (config rm) then False
      else if fadd ops (get_total_exposure_fl ops wm) (stake w)
                > fmul ops (max_position_size (config rm)) 10 then False
      else if daily_pnl rm < - max_daily_loss (config rm) then False
      else (case ctx of
              None \<Rightarrow> True
            | Some mc \<Rightarrow>
                if mc = [] then True
                else (case map_of mc ''event_id'' of
                        None \<Rightarrow> True
                      | Some event_id \<Rightarrow>
                          if \<not> truthy event_id then True
                          else (let event_exposure = get_exposure_by_event ops wm event_id;
                                    event_limit =
                                      (case map_of (position_limits (config rm)) (py_str event_id) of
                                         None \<Rightarrow> max_position_size (config rm)
                                       | Some l \<Rightarrow> l)
                                in if fadd ops event_exposure (stake w) > event_limit then False
                                   else True))))"

text \<open>
  The strategy's use of the two managers (\<^verbatim>\<open>src/strategies/simple_market_maker.py\<close>,
  \<^verbatim>\<open>_place_random_wagers\<close>): the wager goes to \<^verbatim>\<open>place_wager\<close> only if
  \<^verbatim>\<open>check_wager_risk\<close> accepts it, with the same market context. The result carries
  both managers as they are afterwards.
\<close>

definition risk_checked_place ::
  "float_ops \<Rightarrow> RiskManager \<Rightarrow> WagerManager \<Rightarrow> Wager \<Rightarrow> string \<Rightarrow> py_dict \<Rightarrow> real
    \<Rightarrow> int option api_reply
    \<Rightarrow> int option outcome \<times> api_call list \<times> RiskManager \<times> WagerManager" where
  "risk_checked_place ops rm wm w strategy ctx now reply =
     (if check_wager_risk ops rm wm w (Some ctx)
      then (case place_wager ops wm w strategy (Some ctx) now reply of
              (r, calls, wm') \<Rightarrow> (r, calls, rm, wm'))
      else (Result None, [], rm, wm))"

section \<open>Order book engine: data\<close>

text \<open>
  \<^verbatim>\<open>src/data/market_data_manager.py\<close>: the dataclasses \<^verbatim>\<open>SelectionLevel\<close> and
  \<^verbatim>\<open>OrderBook\<close>. The field \<^verbatim>\<open>size\<close> is \<open>size'\<close> and the key \<^verbatim>\<open>value\<close> is \<open>value'\<close>.
  Several records share field names; they are written qualified where they clash.
\<close>

record SelectionLevel =
  selection_id :: int
  selection_name :: string
  odds :: "int option"
  size' :: real
  timestamp :: real

record OrderBook =
  event_id :: int
  market_id :: string
  market_type :: string
  event_name :: string
  selections :: "(int \<times> SelectionLevel) list"
  line_groups :: "(string \<times> (string \<times> SelectionLevel list) list) list"
  available_lines :: "string list"
  last_update :: real
  best_selection :: "SelectionLevel option"
  spread :: real
  total_volume :: real

text \<open>
  A selection entry of the feed is a dictionary; \<open>Selection\<close> holds what the code reads
  from it, with the defaults of its \<^verbatim>\<open>.get\<close> calls applied: \<^verbatim>\<open>name\<close> (default \<open>''\<close>),
  \<^verbatim>\<open>odds\<close> (default \<open>None\<close>), \<^verbatim>\<open>value\<close> (default 0), \<^verbatim>\<open>line_id\<close> (default \<open>''\<close>),
  \<^verbatim>\<open>outcome_id\<close> (default 0). \<open>SelData\<close> is the dictionary kept per name by the
  flat-selection algorithm, \<open>LevelData\<close> the one kept per level by the line-grouped
  algorithm. An element of a \<^verbatim>\<open>selections\<close> list is an entry or a list of entries.
\<close>

record Selection =
  name :: string
  odds :: "int option"
  value' :: real
  line_id :: string
  outcome_id :: int

record SelData = Selection +
  original_value :: real

record LevelData = SelData +
  unique_id :: int
  line_value :: string

datatype selection_group = Single Selection | Group "Selection list"

text \<open>
  A market line: \<open>line\<close> is the text \<^verbatim>\<open>str()\<close> gives for the value under the key
  \<^verbatim>\<open>line\<close> (so \<open>''None''\<close> for a null), \<open>None\<close> when the key is absent. A market: its
  \<^verbatim>\<open>selections\<close> and \<^verbatim>\<open>market_lines\<close> lists, empty when the key is absent.
\<close>

record MarketLine =
  line :: "string option"
  selections :: "selection_group list"

record Market =
  selections :: "selection_group list"
  market_lines :: "MarketLine list"

text \<open>
  What the code takes from the Python runtime: the built-in \<^verbatim>\<open>hash\<close> of a string
  (salted per process), the text an f-string gives for a reported value (as a function
  of the value: the int 100 and the float 100.0 are not told apart), the built-in
  \<^verbatim>\<open>float\<close> on a string (\<open>None\<close> is its \<^verbatim>\<open>ValueError\<close>; texts it reads as an infinity
  or a NaN are outside the model), and the reading of \<^verbatim>\<open>time.time()\<close>, one per call.
\<close>

record runtime =
  py_hash :: "string \<Rightarrow> int"
  fmt_value :: "real \<Rightarrow> string"
  py_float :: "string \<Rightarrow> real option"
  time_time :: real

section \<open>Order book engine: the flat-selection algorithm\<close>

definition flatten_groups :: "selection_group list \<Rightarrow> Selection list" where
  "flatten_groups groups =
     concat (map (\<lambda>selection_group. case selection_group of
                    Group entries \<Rightarrow> entries | Single entry \<Rightarrow> [entry]) groups)"

text \<open>\<^verbatim>\<open>0.0 if odds is None else (value if value > 0 else 1.0)\<close>.\<close>

definition display_value :: "int option \<Rightarrow> real \<Rightarrow> real" where
  "display_value price v = (if price = None then 0 else (if v > 0 then v else 1))"

text \<open>
  One iteration of the loop over \<^verbatim>\<open>all_selections\<close> in
  \<^verbatim>\<open>_process_direct_selections\<close>: a first entry of a name is stored with its display
  value; a later entry of that name with better odds updates the odds, the line id and
  the outcome id, and stores the maximum of its display value and the stored value.
\<close>

definition best_step ::
  "runtime \<Rightarrow> (string \<times> SelData) list \<Rightarrow> Selection \<Rightarrow> (string \<times> SelData) list" where
  "best_step rt best_selections selection =
     (if name selection \<noteq> [] then
        (case map_of best_selections (name selection) of
           None \<Rightarrow>
             AList.update (name selection)
               \<lparr>name = name selection, Selection.odds = Selection.odds selection,
                value' = display_value (Selection.odds selection) (value' selection),
                line_id = Selection.line_id selection,
                outcome_id = (if outcome_id selection \<noteq> 0 then outcome_id selection
                              else py_hash rt (name selection) mod 10000),
                original_value = value' selection\<rparr>
               best_selections
         | Some current \<Rightarrow>
             if is_better_odds (Selection.odds selection) (Selection.odds current) then
               (let new_display_value =
                      display_value (Selection.odds selection) (value' selection)
                in AList.update (name selection)
                     (current\<lparr>Selection.odds := Selection.odds selection,
                              value' := max new_display_value (value' current),
                              line_id := Selection.line_id selection,
                              outcome_id := (if outcome_id selection \<noteq> 0
                                             then outcome_id selection
                                             else outcome_id current)\<rparr>)
                     best_selections)
             else best_selections)
      else best_selections)"

definition best_selections_of ::
  "runtime \<Rightarrow> selection_group list \<Rightarrow> (string \<times> SelData) list" where
  "best_selections_of rt groups = foldl (best_step rt) [] (flatten_groups groups)"

definition direct_level :: "runtime \<Rightarrow> string \<times> SelData \<Rightarrow> SelectionLevel" where
  "direct_level rt item =
     \<lparr>selection_id = outcome_id (snd item), selection_name = fst item,
      SelectionLevel.odds = Selection.odds (snd item), size' = value' (snd item),
      timestamp = time_time rt\<rparr>"

definition process_direct_selections ::
  "runtime \<Rightarrow> OrderBook \<Rightarrow> selection_group list \<Rightarrow> OrderBook" where
  "process_direct_selections rt order_book groups =
     order_book\<lparr>OrderBook.selections :=
        foldl (\<lambda>sels item. AList.update (outcome_id (snd item)) (direct_level rt item) sels)
          (OrderBook.selections order_book) (best_selections_of rt groups)\<rparr>"

text \<open>
  The level the flat-selection algorithm creates for a name from a list of entries:
  the \<^verbatim>\<open>SelectionLevel\<close> built from that name's entry of \<^verbatim>\<open>best_selections\<close>.
\<close>

definition level_for :: "runtime \<Rightarrow> selection_group list \<Rightarrow> string \<Rightarrow> SelectionLevel option" where
  "level_for rt groups nm =
     map_option (\<lambda>d. direct_level rt (nm, d)) (map_of (best_selections_of rt groups) nm)"

section \<open>Order book engine: the line-grouped algorithm\<close>

text \<open>
  \<^verbatim>\<open>_process_market_lines\<close>. \<open>str_odds\<close> is the text of the odds in the f-string of the
  unique id, which is cut to 20 characters, hashed and reduced modulo 100000.
\<close>

definition str_odds :: "int option \<Rightarrow> string" where
  "str_odds price = (case price of None \<Rightarrow> ''None'' | Some i \<Rightarrow> str_int i)"

definition unique_selection_id :: "runtime \<Rightarrow> string \<Rightarrow> Selection \<Rightarrow> int" where
  "unique_selection_id rt lv selection =
     py_hash rt (take 20 (str_int (outcome_id selection) @ ''_'' @ lv @ ''_''
                          @ str_odds (Selection.odds selection) @ ''_''
                          @ fmt_value rt (value' selection))) mod 100000"

definition level_data :: "runtime \<Rightarrow> string \<Rightarrow> Selection \<Rightarrow> LevelData" where
  "level_data rt lv selection =
     \<lparr>name = name selection, Selection.odds = Selection.odds selection,
      value' = display_value (Selection.odds selection) (value' selection),
      line_id = Selection.line_id selection, outcome_id = outcome_id selection,
      original_value = value' selection,
      unique_id = unique_selection_id rt lv selection, line_value = lv\<rparr>"

definition group_step ::
  "runtime \<Rightarrow> string \<Rightarrow> (string \<times> LevelData list) list \<Rightarrow> Selection
    \<Rightarrow> (string \<times> LevelData list) list" where
  "group_step rt lv selections_by_name selection =
     (if name selection \<noteq> [] then
        AList.update (name selection)
          ((case map_of selections_by_name (name selection) of None \<Rightarrow> [] | Some l \<Rightarrow> l)
           @ [level_data rt lv selection])
          selections_by_name
      else selections_by_name)"

text \<open>
  The sort of one name's levels: only when the first level is priced, by the key
  \<^verbatim>\<open>odds if odds is not None else float('inf')\<close> with \<^verbatim>\<open>reverse=True\<close>, which is a
  stable descending sort. An infinite key is the pair \<open>(True, 0)\<close>, a finite key \<open>k\<close>
  the pair \<open>(False, k)\<close>, in the lexicographic order of pairs.
\<close>

definition odds_key :: "int option \<Rightarrow> bool \<times> int" where
  "odds_key price = (case price of None \<Rightarrow> (True, 0) | Some i \<Rightarrow> (False, i))"

definition sort_levels :: "LevelData list \<Rightarrow> LevelData list" where
  "sort_levels selection_levels =
     (if selection_levels \<noteq> [] \<and> Selection.odds (hd selection_levels) \<noteq> None
      then rev (sort_key (\<lambda>x. odds_key (Selection.odds x)) (rev selection_levels))
      else selection_levels)"

definition line_level :: "runtime \<Rightarrow> string \<Rightarrow> LevelData \<Rightarrow> SelectionLevel" where
  "line_level rt nm data =
     \<lparr>selection_id = unique_id data, selection_name = nm,
      SelectionLevel.odds = Selection.odds data, size' = value' data,
      timestamp = time_time rt\<rparr>"

text \<open>
  The body of the innermost loop: the level is appended to
  \<^verbatim>\<open>line_groups[line_value][name]\<close> and stored in \<^verbatim>\<open>selections\<close> under its unique id.
  Both keys are present when it runs (the enclosing code has initialised them).
\<close>

definition store_level ::
  "runtime \<Rightarrow> string \<Rightarrow> string \<Rightarrow> OrderBook \<Rightarrow> LevelData \<Rightarrow> OrderBook" where
  "store_level rt lv nm order_book data =
     (let selection_level = line_level rt nm data;
          grp = (case map_of (line_groups order_book) lv of None \<Rightarrow> [] | Some g \<Rightarrow> g);
          levels = (case map_of grp nm of None \<Rightarrow> [] | Some l \<Rightarrow> l)
      in order_book
           \<lparr>line_groups :=
              AList.update lv (AList.update nm (levels @ [selection_level]) grp)
                (line_groups order_book),
            OrderBook.selections :=
              AList.update (unique_id data) selection_level (OrderBook.selections order_book)\<rparr>)"

definition store_name ::
  "runtime \<Rightarrow> string \<Rightarrow> OrderBook \<Rightarrow> string \<times> LevelData list \<Rightarrow> OrderBook" where
  "store_name rt lv order_book item =
     (let selection_levels = sort_levels (snd item);
          grp = (case map_of (line_groups order_book) lv of None \<Rightarrow> [] | Some g \<Rightarrow> g);
          ob1 = (if map_of grp (fst item) = None
                 then order_book\<lparr>line_groups :=
                        AList.update lv (AList.update (fst item) [] grp) (line_groups order_book)\<rparr>
                 else order_book)
      in foldl (store_level rt lv (fst item)) ob1 selection_levels)"

definition line_value_of :: "MarketLine \<Rightarrow> string" where
  "line_value_of ml = (case line ml of None \<Rightarrow> ''N/A'' | Some s \<Rightarrow> s)"

definition process_line :: "runtime \<Rightarrow> OrderBook \<Rightarrow> MarketLine \<Rightarrow> OrderBook" where
  "process_line rt order_book ml =
     (let lv = line_value_of ml;
          ob1 = (if map_of (line_groups order_book) lv = None
                 then order_book\<lparr>line_groups := AList.update lv [] (line_groups order_book),
                                 available_lines := available_lines order_book @ [lv]\<rparr>
                 else order_book);
          line_selections = flatten_groups (MarketLine.selections ml);
          selections_by_name = foldl (group_step rt lv) [] line_selections
      in foldl (store_name rt lv) ob1 selections_by_name)"

text \<open>
  The final sort of \<^verbatim>\<open>available_lines\<close>. The keys
  \<^verbatim>\<open>float(x) if x != 'N/A' else float('inf')\<close> are computed for the whole list first; if
  one of them raises \<^verbatim>\<open>ValueError\<close> the list is sorted as strings instead.
\<close>

definition line_key :: "(string \<Rightarrow> real option) \<Rightarrow> string \<Rightarrow> (bool \<times> real) option" where
  "line_key to_float x =
     (if x = ''N/A'' then Some (True, 0) else map_option (\<lambda>r. (False, r)) (to_float x))"

definition sort_lines :: "(string \<Rightarrow> real option) \<Rightarrow> string list \<Rightarrow> string list" where
  "sort_lines to_float lines =
     (if None \<in> set (map (line_key to_float) lines) then sort lines
      else sort_key (\<lambda>x. the (line_key to_float x)) lines)"

definition process_market_lines :: "runtime \<Rightarrow> OrderBook \<Rightarrow> MarketLine list \<Rightarrow> OrderBook" where
  "process_market_lines rt order_book mls =
     (if mls = [] then order_book
      else (let ob0 = order_book\<lparr>line_groups := [], available_lines := []\<rparr>;
                ob1 = foldl (process_line rt) ob0 mls
            in ob1\<lparr>available_lines := sort_lines (py_float rt) (available_lines ob1)\<rparr>))"

text \<open>
  The order the specification gives to \<^verbatim>\<open>available_lines\<close>: numeric values
  ascending, every non-numeric value (\<open>N/A\<close> among them) after all numeric ones,
  non-numeric values in alphabetical order. \<open>line_keys\<close> are the keys of
  \<^verbatim>\<open>line_groups\<close>, and \<open>lines_match\<close> says that \<^verbatim>\<open>available_lines\<close> lists them
  without repetition.
\<close>

definition numeric_first :: "(string \<Rightarrow> real option) \<Rightarrow> string \<Rightarrow> string \<Rightarrow> bool" where
  "numeric_first to_float x y =
     (case (if x = ''N/A'' then None else to_float x, if y = ''N/A'' then None else to_float y) of
        (Some a, Some b) \<Rightarrow> a \<le> b
      | (Some a, None) \<Rightarrow> True
      | (None, Some b) \<Rightarrow> False
      | (None, None) \<Rightarrow> x \<le> y)"

definition line_keys :: "OrderBook \<Rightarrow> string set" where
  "line_keys ob = fst ` set (line_groups ob)"

definition lines_match :: "OrderBook \<Rightarrow> bool" where
  "lines_match ob = (set (available_lines ob) = line_keys ob \<and> distinct (available_lines ob))"

section \<open>Order book engine: applying an update\<close>

text \<open>
  \<^verbatim>\<open>_process_market_selections\<close> clears \<^verbatim>\<open>selections\<close>, runs the flat-selection
  algorithm when the market has selections, else the line-grouped algorithm when it has
  market lines, and stamps the book. \<^verbatim>\<open>_calculate_order_book_metrics\<close> then writes
  \<^verbatim>\<open>best_selection\<close>, \<^verbatim>\<open>spread\<close> and \<^verbatim>\<open>total_volume\<close>. \<open>refresh_order_book\<close> is
  the two in sequence, as \<^verbatim>\<open>_refresh_event_order_books\<close> and \<^verbatim>\<open>_update_order_books\<close>
  apply them to a book.
\<close>

definition process_market_selections :: "runtime \<Rightarrow> OrderBook \<Rightarrow> Market \<Rightarrow> OrderBook" where
  "process_market_selections rt order_book market =
     (let ob1 = order_book\<lparr>OrderBook.selections := []\<rparr>;
          ob2 = (if Market.selections market \<noteq> []
                 then process_direct_selections rt ob1 (Market.selections market)
                 else if market_lines market \<noteq> []
                 then process_market_lines rt ob1 (market_lines market)
                 else ob1)
      in ob2\<lparr>last_update := time_time rt\<rparr>)"

definition calculate_order_book_metrics :: "OrderBook \<Rightarrow> OrderBook" where
  "calculate_order_book_metrics order_book =
     (if OrderBook.selections order_book = []
      then order_book\<lparr>best_selection := None, spread := 0, total_volume := 0\<rparr>
      else (let sels = map snd (OrderBook.selections order_book);
                odds_values = concat (map (\<lambda>sel. case SelectionLevel.odds sel of
                                                   None \<Rightarrow> [] | Some i \<Rightarrow> [i]) sels)
            in order_book
                 \<lparr>best_selection := Some (hd sels),
                  spread := (if length odds_values \<ge> 2
                             then real_of_int (Max (set odds_values) - Min (set odds_values))
                             else 0),
                  total_volume := sum_list (map size' sels)\<rparr>))"

definition refresh_order_book :: "runtime \<Rightarrow> OrderBook \<Rightarrow> Market \<Rightarrow> OrderBook" where
  "refresh_order_book rt order_book market =
     calculate_order_book_metrics (process_market_selections rt order_book market)"

text \<open>
  The consistency the book is meant to keep: every level in a list of \<^verbatim>\<open>line_groups\<close>
  is the entry of \<^verbatim>\<open>selections\<close> under its id.
\<close>

definition levels_of :: "OrderBook \<Rightarrow> SelectionLevel list" where
  "levels_of order_book = concat (map snd (concat (map snd (line_groups order_book))))"

definition line_groups_in_selections :: "OrderBook \<Rightarrow> bool" where
  "line_groups_in_selections order_book =
     list_all (\<lambda>level. map_of (OrderBook.selections order_book) (selection_id level) = Some level)
       (levels_of order_book)"

section \<open>Notification hub\<close>





record 'w MarketDataManager =
  subscribers :: "nat list"
  world :: 'w

definition subscribe_to_updates :: "'w MarketDataManager \<Rightarrow> nat \<Rightarrow> 'w MarketDataManager" where
  "subscribe_to_updates mgr callback = mgr\<lparr>subscribers := subscribers mgr @ [callback]\<rparr>"








section \<open>Sample configuration and wagers\<close>

text \<open>
  The defaults of \<^verbatim>\<open>TradingConfig\<close> in \<^verbatim>\<open>src/config/settings.py\<close>, a wager as
  \<^verbatim>\<open>Wager(external_id, line_id, odds, stake)\<close> builds it (the other fields at their
  dataclass defaults), and two managers built from them: one with a placement of
  \<open>w1\<close> awaiting its transport reply, one holding a stake of 8 under a total
  exposure limit of 12.
\<close>

definition default_trading_config :: TradingConfig where
  "default_trading_config =
     \<lparr>dry_run = True, max_stake_per_wager = 10, max_total_exposure = 1000,
      min_odds = - 200, max_odds = 200, default_stake = 5,
      wager_frequency_seconds = 30, max_concurrent_wagers = 50\<rparr>"

definition example_wager :: "string \<Rightarrow> int \<Rightarrow> real \<Rightarrow> Wager" where
  "example_wager ext_id price amount =
     \<lparr>external_id = ext_id, Wager.line_id = 1, Wager.odds = price, stake = amount,
      Wager.selection_id = 0, Wager.selection_name = [], status = PENDING, wager_id = None,
      filled_stake = 0, Wager.timestamp = None\<rparr>"

definition in_flight :: WagerManager where
  "in_flight = (WagerManager_init default_trading_config)
     \<lparr>pending_placements := [(''w1'', example_wager ''w1'' 100 5)]\<rparr>"

definition nearly_full :: WagerManager where
  "nearly_full = snd (snd (place_wager exact_ops
     (WagerManager_init (default_trading_config\<lparr>max_total_exposure := 12\<rparr>))
     (example_wager ''w1'' 100 8) ''simple_market_maker'' None 0 (Returns (Some 7))))"

text \<open>The defaults of \<^verbatim>\<open>RiskConfig\<close>, and a risk manager started at time 0.\<close>

definition default_risk_config :: RiskConfig where
  "default_risk_config =
     \<lparr>max_daily_loss = 500, max_position_size = 100, stop_loss_percentage = 5 / 100,
      max_drawdown = 10 / 100, position_limits = []\<rparr>"

definition sample_risk_manager :: RiskManager where
  "sample_risk_manager = RiskManager_init default_risk_config 0"

section \<open>Sample runtime, books and feeds\<close>

text \<open>
  \<open>float_decimal\<close> reads the plain decimal literals as \<^verbatim>\<open>float\<close> does: an optional
  sign, digits, an optional point and digits, at least one digit in all; every other
  text is its \<^verbatim>\<open>ValueError\<close>. It is the \<^verbatim>\<open>float\<close> of the sample runtime, whose clock
  reads 0. The string hash is salted per process and the text of a value depends on
  its Python type, so the sample runtime has stand-ins for both; no result below
  depends on either.
\<close>

definition digit_value :: "char \<Rightarrow> nat option" where
  "digit_value c = (if c \<in> set ''0123456789'' then Some (of_char c - 48) else None)"

fun digits_value :: "nat \<Rightarrow> string \<Rightarrow> nat option" where
  "digits_value acc [] = Some acc"
| "digits_value acc (c # cs) =
     (case digit_value c of None \<Rightarrow> None | Some d \<Rightarrow> digits_value (10 * acc + d) cs)"

definition unsigned_decimal :: "string \<Rightarrow> real option" where
  "unsigned_decimal s =
     (let whole = takeWhile (\<lambda>c. c \<noteq> CHR ''.'') s;
          frac = drop 1 (dropWhile (\<lambda>c. c \<noteq> CHR ''.'') s)
      in if whole = [] \<and> frac = [] then None
         else (case (digits_value 0 whole, digits_value 0 frac) of
                 (Some w, Some f) \<Rightarrow> Some (real w + real f / 10 ^ length frac)
               | _ \<Rightarrow> None))"

definition float_decimal :: "string \<Rightarrow> real option" where
  "float_decimal s =
     (case s of
        [] \<Rightarrow> None
      | c # cs \<Rightarrow>
          if c = CHR ''-'' then map_option uminus (unsigned_decimal cs)
          else if c = CHR ''+'' then unsigned_decimal cs
          else unsigned_decimal s)"

definition sample_runtime :: runtime where
  "sample_runtime =
     \<lparr>py_hash = (\<lambda>s. int (length s)), fmt_value = (\<lambda>r. ''?''),
      py_float = float_decimal, time_time = 0\<rparr>"

text \<open>\<^verbatim>\<open>OrderBook(event_id=..., market_id=..., market_type=..., event_name=...)\<close>.\<close>

definition OrderBook_init :: "int \<Rightarrow> string \<Rightarrow> string \<Rightarrow> string \<Rightarrow> real \<Rightarrow> OrderBook" where
  "OrderBook_init eid mid mtype ename now =
     \<lparr>event_id = eid, market_id = mid, market_type = mtype, event_name = ename,
      OrderBook.selections = [], line_groups = [], available_lines = [], last_update = now,
      best_selection = None, spread = 0, total_volume = 0\<rparr>"

definition sample_book :: OrderBook where
  "sample_book = OrderBook_init 777 ''777_total_3'' ''total'' ''Home v Away'' 0"

definition entry :: "string \<Rightarrow> int option \<Rightarrow> real \<Rightarrow> int \<Rightarrow> Selection" where
  "entry nm price v oid =
     \<lparr>name = nm, Selection.odds = price, value' = v, line_id = ''L1'', outcome_id = oid\<rparr>"

definition bare_line :: "string \<Rightarrow> MarketLine" where
  "bare_line s = \<lparr>line = Some s, MarketLine.selections = []\<rparr>"

text \<open>
  A line whose two offers for \<open>Over\<close> differ only in the reported value. The text
  \<^verbatim>\<open>12345678_-10.5_-110_\<close> of outcome id, line and odds is already 20 characters
  long, so the cut drops the value and both offers get the id \<open>colliding_id\<close>.
\<close>

definition colliding_line :: MarketLine where
  "colliding_line =
     \<lparr>line = Some ''-10.5'',
      MarketLine.selections =
        [Group [entry ''Over'' (Some (- 110)) 100 12345678,
                entry ''Over'' (Some (- 110)) 50 12345678]]\<rparr>"

definition colliding_id :: "runtime \<Rightarrow> int" where
  "colliding_id rt = py_hash rt ''12345678_-10.5_-110_'' mod 100000"

definition over_level :: "runtime \<Rightarrow> real \<Rightarrow> SelectionLevel" where
  "over_level rt sz =
     \<lparr>selection_id = colliding_id rt, selection_name = ''Over'',
      SelectionLevel.odds = Some (- 110), size' = sz, timestamp = time_time rt\<rparr>"

text \<open>
  The lines of the specification's example, the second without a \<^verbatim>\<open>line\<close> key.
\<close>

definition example_lines :: "MarketLine list" where
  "example_lines =
     [bare_line ''2.5'', \<lparr>line = None, MarketLine.selections = []\<rparr>,
      bare_line ''-1.5'', bare_line ''0.5'']"




text \<open>A book that an update with the line of the two \<open>Over\<close> offers has filled.\<close>

definition lined_book :: OrderBook where
  "lined_book = refresh_order_book sample_runtime sample_book
     \<lparr>Market.selections = [], market_lines = [colliding_line]\<rparr>"

section \<open>Theorems\<close>

text \<open>
  C5. The comparator on nullable integer odds: an unpriced new quote is never better
  (so null against null is false and null is worse than any price), any priced quote
  beats an unpriced one, of two positive prices the larger is better, of two negative
  prices the one of smaller absolute value is better, a positive price beats a negative
  one, and no quote is better than itself (zero included). The five sample values of the
  specification are part of the statement.
\<close>

theorem is_better_odds_spec:
  "is_better_odds None cur = False
   \<and> is_better_odds (Some n) None = True
   \<and> (0 < a \<and> 0 < b \<longrightarrow> is_better_odds (Some a) (Some b) = (b < a))
   \<and> (c < 0 \<and> d < 0 \<longrightarrow> is_better_odds (Some c) (Some d) = (\<bar>c\<bar> < \<bar>d\<bar>))
   \<and> (0 < p \<and> q < 0 \<longrightarrow> is_better_odds (Some p) (Some q) \<and> \<not> is_better_odds (Some q) (Some p))
   \<and> is_better_odds x x = False
   \<and> is_better_odds (Some 200) (Some 150) = True
   \<and> is_better_odds (Some (- 110)) (Some (- 150)) = True
   \<and> is_better_odds (Some 100) (Some (- 100)) = True
   \<and> is_better_odds None (Some 150) = False
   \<and> is_better_odds (Some 150) None = True"
proof -
  have nul: "is_better_odds None cur = False"
    by (cases cur) simp_all
  have refl: "is_better_odds x x = False"
    by (cases x) simp_all
  show ?thesis
    using nul refl by simp
qed

theorem is_better_odds_spec_witness:
  "(0::int) < 200 \<and> (0::int) < 150 \<and> is_better_odds (Some 200) (Some 150)
   \<and> (- 110::int) < 0 \<and> (- 150::int) < 0 \<and> is_better_odds (Some (- 110)) (Some (- 150))
   \<and> (0::int) < 100 \<and> (- 100::int) < 0 \<and> is_better_odds (Some 100) (Some (- 100))
   \<and> \<not> is_better_odds (Some (- 100)) (Some 100)
   \<and> \<not> is_better_odds (Some 0) (Some 0)"
  using is_better_odds_spec [of "Some 150" 0 200 150 "- 110" "- 150" 100 "- 100" "Some 0"]
  by simp

lemma sum_list_entries:
  "distinct (map fst al) \<Longrightarrow> sum_list (map f (map snd al)) = (\<Sum>p\<in>set al. f (snd p))"
proof -
  assume "distinct (map fst al)"
  then have "distinct al" by (simp add: distinct_map)
  then have "sum_list (map (\<lambda>p. f (snd p)) al) = (\<Sum>p\<in>set al. f (snd p))"
    by (rule sum_list_distinct_conv_sum_set)
  then show ?thesis by (simp add: comp_def)
qed

lemma place_wager_keys:
  "distinct (map fst (active_wagers m)) \<Longrightarrow>
   distinct (map fst (active_wagers (snd (snd (place_wager ops m w sn ctx now reply)))))"
  by (auto simp: place_wager_def place_wager_begin_def place_wager_resume_def Let_def
      distinct_update split: api_reply.splits)

lemma cancel_wager_keys:
  "distinct (map fst (active_wagers m)) \<Longrightarrow>
   distinct (map fst (active_wagers (snd (snd (cancel_wager m k reason now reply)))))"
  by (auto simp: cancel_wager_def Let_def distinct_delete split: option.splits api_reply.splits)

lemma cancel_all_wagers_keys:
  "distinct (map fst (active_wagers m)) \<Longrightarrow>
   distinct (map fst (active_wagers (snd (snd (cancel_all_wagers m reason now reply)))))"
  by (auto simp: cancel_all_wagers_def split: api_reply.splits)

lemma step_keys:
  "distinct (map fst (active_wagers m)) \<Longrightarrow> distinct (map fst (active_wagers (step ops m c)))"
  by (cases c) (simp_all add: place_wager_keys cancel_wager_keys cancel_all_wagers_keys)

lemma run_fl_keys:
  "distinct (map fst (active_wagers m)) \<Longrightarrow>
   distinct (map fst (active_wagers (run_fl ops m calls)))"
  unfolding run_fl_def
  by (induction calls arbitrary: m) (simp_all add: step_keys)

lemma run_keys:
  "distinct (map fst (active_wagers m)) \<Longrightarrow> distinct (map fst (active_wagers (run m calls)))"
  unfolding run_def by (rule run_fl_keys)

lemma get_total_exposure_exact:
  "get_total_exposure m =
     sum_list (map (\<lambda>record. stake (wager record)) (map snd (active_wagers m)))"
  by (simp add: get_total_exposure_def get_total_exposure_fl_def exact_ops_def)

text \<open>
  C1. After any sequence of \<open>place_wager\<close>, \<open>cancel_wager\<close> and
  \<open>cancel_all_wagers\<close> calls on a fresh manager, whatever the transport replies,
  \<open>get_total_exposure\<close> equals the sum of the stakes over the set of entries of the
  active table. The enumeration of \<open>get_total_exposure\<close> counts every active record
  once because the keys of the table stay distinct.
\<close>

theorem exposure_consistency:
  "get_total_exposure (run (WagerManager_init cfg) calls) =
     (\<Sum>p\<in>set (active_wagers (run (WagerManager_init cfg) calls)). stake (wager (snd p)))"
proof -
  have "distinct (map fst (active_wagers (WagerManager_init cfg)))"
    by (simp add: WagerManager_init_def)
  then have "distinct (map fst (active_wagers (run (WagerManager_init cfg) calls)))"
    by (rule run_keys)
  then show ?thesis
    unfolding get_total_exposure_exact by (rule sum_list_entries)
qed

lemma place_wager_refused:
  "\<not> validate_wager m w \<or> \<not> check_position_limits ops m w \<Longrightarrow>
   place_wager ops m w sn ctx now reply = (Result None, [], m)"
  by (auto simp: place_wager_def place_wager_begin_def)

lemma place_wager_transport_failure:
  "validate_wager m w \<Longrightarrow> check_position_limits ops m w \<Longrightarrow>
   reply = Returns None \<or> reply = Raises \<Longrightarrow>
   place_wager ops m w sn ctx now reply =
     (Result None, [ApiPlaceWager w],
      m\<lparr>pending_placements := AList.delete (external_id w) (pending_placements m)\<rparr>)"
  by (auto simp: place_wager_def place_wager_begin_def place_wager_resume_def id_truthy_def
      delete_update_same)

lemma place_wager_interrupted:
  "validate_wager m w \<Longrightarrow> check_position_limits ops m w \<Longrightarrow>
   place_wager ops m w sn ctx now Interrupts =
     (Uncaught, [ApiPlaceWager w],
      m\<lparr>pending_placements := AList.update (external_id w) w (pending_placements m)\<rparr>)"
  by (simp add: place_wager_def place_wager_begin_def place_wager_resume_def)

lemma sample_checks:
  "validate_wager in_flight (example_wager ''w1'' 100 6)"
  "check_position_limits exact_ops in_flight (example_wager ''w1'' 100 6)"
  "\<not> validate_wager in_flight (example_wager ''w1'' 100 50)"
  "validate_wager (WagerManager_init default_trading_config) (example_wager ''w1'' 100 5)"
  "check_position_limits exact_ops (WagerManager_init default_trading_config)
     (example_wager ''w1'' 100 5)"
  by (simp_all add: validate_wager_def check_position_limits_def get_total_exposure_fl_def
      exact_ops_def in_flight_def WagerManager_init_def default_trading_config_def
      example_wager_def)

lemma first_attempt_in_flight:
  "place_wager_begin exact_ops (WagerManager_init default_trading_config)
     (example_wager ''w1'' 100 5) = Inr in_flight"
  using sample_checks(4,5)
  by (simp add: place_wager_begin_def in_flight_def WagerManager_init_def example_wager_def)

text \<open>
  C2, as stated, fails where the id is already pending: a validation or limit failure
  returns before the pending table is touched. With a first placement of \<open>w1\<close>
  awaiting its transport reply, a second call for \<open>w1\<close> with a stake of 50 fails
  validation and returns \<open>None\<close>, and \<open>w1\<close> is still in the pending table.
\<close>

theorem pending_entry_survives_counterexample:
  "place_wager_begin exact_ops (WagerManager_init default_trading_config)
     (example_wager ''w1'' 100 5) = Inr in_flight
   \<and> \<not> validate_wager in_flight (example_wager ''w1'' 100 50)
   \<and> place_wager exact_ops in_flight (example_wager ''w1'' 100 50) ''simple_market_maker''
        None 0 (Returns (Some 7)) = (Result None, [], in_flight)
   \<and> map_of (pending_placements in_flight) (external_id (example_wager ''w1'' 100 50))
       = Some (example_wager ''w1'' 100 5)"
proof -
  have "place_wager exact_ops in_flight (example_wager ''w1'' 100 50) ''simple_market_maker''
        None 0 (Returns (Some 7)) = (Result None, [], in_flight)"
    using sample_checks(3) by (intro place_wager_refused) simp
  moreover have "map_of (pending_placements in_flight)
      (external_id (example_wager ''w1'' 100 50)) = Some (example_wager ''w1'' 100 5)"
    by (simp add: in_flight_def example_wager_def)
  ultimately show ?thesis
    using first_attempt_in_flight sample_checks(3) by simp
qed

text \<open>
  C2, amended. A placement that fails by local validation or by the position limits
  returns \<open>None\<close>, makes no transport call and leaves the manager as it was, the
  pending table included. A placement that fails because the transport returns no id
  or raises an \<^verbatim>\<open>Exception\<close> returns \<open>None\<close> and removes the pending entry of the
  wager's id. In every such failure no active record is created and \<open>total_placed\<close>
  is unchanged, and an id that was not pending when the call began is not pending
  after it. A stake above \<open>max_stake_per_wager\<close> makes no transport call. An exception
  that is not an \<^verbatim>\<open>Exception\<close>, raised at the awaited transport call, leaves
  \<open>place_wager\<close> with the pending entry registered.
\<close>

theorem failed_placement:
  "(\<not> validate_wager m w \<or> \<not> check_position_limits ops m w \<longrightarrow>
      place_wager ops m w sn ctx now reply = (Result None, [], m))
   \<and> (validate_wager m w \<and> check_position_limits ops m w
        \<and> (reply = Returns None \<or> reply = Raises) \<longrightarrow>
      place_wager ops m w sn ctx now reply =
        (Result None, [ApiPlaceWager w],
         m\<lparr>pending_placements := AList.delete (external_id w) (pending_placements m)\<rparr>)
      \<and> external_id w
          \<notin> fst ` set (pending_placements (snd (snd (place_wager ops m w sn ctx now reply)))))
   \<and> (\<not> validate_wager m w \<or> \<not> check_position_limits ops m w
        \<or> reply = Returns None \<or> reply = Raises \<longrightarrow>
      fst (place_wager ops m w sn ctx now reply) = Result None
      \<and> active_wagers (snd (snd (place_wager ops m w sn ctx now reply))) = active_wagers m
      \<and> total_placed (snd (snd (place_wager ops m w sn ctx now reply))) = total_placed m
      \<and> (external_id w \<notin> fst ` set (pending_placements m) \<longrightarrow>
           snd (snd (place_wager ops m w sn ctx now reply)) = m))
   \<and> (stake w > max_stake_per_wager (trading_config m) \<longrightarrow>
        fst (snd (place_wager ops m w sn ctx now reply)) = [])
   \<and> (validate_wager m w \<and> check_position_limits ops m w \<longrightarrow>
        place_wager ops m w sn ctx now Interrupts =
          (Uncaught, [ApiPlaceWager w],
           m\<lparr>pending_placements := AList.update (external_id w) w (pending_placements m)\<rparr>))"
proof -
  have refused: "\<not> validate_wager m w \<or> \<not> check_position_limits ops m w \<Longrightarrow>
      place_wager ops m w sn ctx now reply = (Result None, [], m)"
    by (rule place_wager_refused)
  have transport: "validate_wager m w \<and> check_position_limits ops m w
        \<and> (reply = Returns None \<or> reply = Raises) \<Longrightarrow>
      place_wager ops m w sn ctx now reply =
        (Result None, [ApiPlaceWager w],
         m\<lparr>pending_placements := AList.delete (external_id w) (pending_placements m)\<rparr>)"
    by (intro place_wager_transport_failure) simp_all
  have absent: "external_id w
      \<notin> fst ` set (AList.delete (external_id w) (pending_placements m))"
    by (rule delete_notin_dom)
  have big: "stake w > max_stake_per_wager (trading_config m) \<Longrightarrow>
      fst (snd (place_wager ops m w sn ctx now reply)) = []"
  proof -
    assume "stake w > max_stake_per_wager (trading_config m)"
    then have "\<not> validate_wager m w" by (simp add: validate_wager_def)
    then show ?thesis by (simp add: refused)
  qed
  have c3: "\<not> validate_wager m w \<or> \<not> check_position_limits ops m w
        \<or> reply = Returns None \<or> reply = Raises \<Longrightarrow>
      fst (place_wager ops m w sn ctx now reply) = Result None
      \<and> active_wagers (snd (snd (place_wager ops m w sn ctx now reply))) = active_wagers m
      \<and> total_placed (snd (snd (place_wager ops m w sn ctx now reply))) = total_placed m
      \<and> (external_id w \<notin> fst ` set (pending_placements m) \<longrightarrow>
           snd (snd (place_wager ops m w sn ctx now reply)) = m)"
  proof (cases "validate_wager m w \<and> check_position_limits ops m w")
    case False
    then show ?thesis using refused by auto
  next
    case True
    assume "\<not> validate_wager m w \<or> \<not> check_position_limits ops m w
        \<or> reply = Returns None \<or> reply = Raises"
    with True have "reply = Returns None \<or> reply = Raises" by blast
    with True transport show ?thesis by simp
  qed
  show ?thesis
    using refused transport absent big c3 place_wager_interrupted [of m w ops sn ctx now]
    by (intro conjI impI) simp_all
qed

theorem failed_placement_witness:
  "\<not> validate_wager in_flight (example_wager ''w1'' 100 50)
   \<and> stake (example_wager ''w1'' 100 50) > max_stake_per_wager (trading_config in_flight)
   \<and> place_wager exact_ops in_flight (example_wager ''w1'' 100 50) ''simple_market_maker''
        None 0 (Returns (Some 7)) = (Result None, [], in_flight)
   \<and> validate_wager in_flight (example_wager ''w1'' 100 6)
   \<and> check_position_limits exact_ops in_flight (example_wager ''w1'' 100 6)
   \<and> place_wager exact_ops in_flight (example_wager ''w1'' 100 6) ''simple_market_maker''
        None 0 Raises
       = (Result None, [ApiPlaceWager (example_wager ''w1'' 100 6)],
          WagerManager_init default_trading_config)
   \<and> place_wager exact_ops in_flight (example_wager ''w1'' 100 6) ''simple_market_maker''
        None 0 Interrupts
       = (Uncaught, [ApiPlaceWager (example_wager ''w1'' 100 6)],
          in_flight\<lparr>pending_placements := [(''w1'', example_wager ''w1'' 100 6)]\<rparr>)"
proof -
  let ?bad = "example_wager ''w1'' 100 50"
  let ?ok = "example_wager ''w1'' 100 6"
  have big: "stake ?bad > max_stake_per_wager (trading_config in_flight)"
    by (simp add: in_flight_def WagerManager_init_def default_trading_config_def
        example_wager_def)
  have del: "in_flight\<lparr>pending_placements :=
        AList.delete (external_id ?ok) (pending_placements in_flight)\<rparr>
      = WagerManager_init default_trading_config"
    by (simp add: in_flight_def WagerManager_init_def example_wager_def)
  have upd: "in_flight\<lparr>pending_placements :=
        AList.update (external_id ?ok) ?ok (pending_placements in_flight)\<rparr>
      = in_flight\<lparr>pending_placements := [(''w1'', ?ok)]\<rparr>"
    by (simp add: in_flight_def example_wager_def)
  from failed_placement [of in_flight ?bad exact_ops "''simple_market_maker''" None 0
      "Returns (Some 7)"] sample_checks(3)
  have a: "place_wager exact_ops in_flight ?bad ''simple_market_maker'' None 0
      (Returns (Some 7)) = (Result None, [], in_flight)"
    by simp
  from failed_placement [of in_flight ?ok exact_ops "''simple_market_maker''" None 0 Raises]
    sample_checks(1,2)
  have b: "place_wager exact_ops in_flight ?ok ''simple_market_maker'' None 0 Raises
      = (Result None, [ApiPlaceWager ?ok], WagerManager_init default_trading_config)"
    by (simp add: del)
  from failed_placement [of in_flight ?ok exact_ops "''simple_market_maker''" None 0 Raises]
    sample_checks(1,2)
  have c: "place_wager exact_ops in_flight ?ok ''simple_market_maker'' None 0 Interrupts
      = (Uncaught, [ApiPlaceWager ?ok], in_flight\<lparr>pending_placements := [(''w1'', ?ok)]\<rparr>)"
    by (simp add: upd)
  show ?thesis
    using sample_checks(1,2,3) big a b c by simp
qed

text \<open>
  A call that starts with an empty pending-placement table leaves it empty, unless it
  is a placement that an exception outside \<^verbatim>\<open>Exception\<close> interrupts at the transport
  call.
\<close>

lemma step_pending_empty:
  assumes "pending_placements m = []"
    and "\<forall>w sn ctx now. c \<noteq> PlaceWager w sn ctx now Interrupts"
  shows "pending_placements (step ops m c) = []"
  using assms
  by (cases c)
    (auto simp: place_wager_def place_wager_begin_def place_wager_resume_def cancel_wager_def
      cancel_all_wagers_def Let_def split: api_reply.splits option.splits)

lemma second_attempt_begin:
  "place_wager_begin exact_ops in_flight (example_wager ''w1'' 100 6)
     = Inr (in_flight\<lparr>pending_placements := [(''w1'', example_wager ''w1'' 100 6)]\<rparr>)"
  using sample_checks(1,2)
  by (simp add: place_wager_begin_def) (simp add: in_flight_def example_wager_def)

text \<open>
  C3, as stated, fails: no placement is refused because its id is pending. With \<open>w1\<close>
  registered by a first attempt that awaits its reply, a second attempt for \<open>w1\<close>,
  with a stake of 6, passes the same checks, replaces the pending entry by its own
  wager and calls the transport.
\<close>

theorem duplicate_in_flight_counterexample:
  "place_wager_begin exact_ops (WagerManager_init default_trading_config)
     (example_wager ''w1'' 100 5) = Inr in_flight
   \<and> map_of (pending_placements in_flight) (external_id (example_wager ''w1'' 100 6))
       = Some (example_wager ''w1'' 100 5)
   \<and> place_wager_begin exact_ops in_flight (example_wager ''w1'' 100 6)
       = Inr (in_flight\<lparr>pending_placements := [(''w1'', example_wager ''w1'' 100 6)]\<rparr>)
   \<and> place_wager exact_ops in_flight (example_wager ''w1'' 100 6) ''simple_market_maker''
        None 0 (Returns (Some 7))
       = (Result (Some 7), [ApiPlaceWager (example_wager ''w1'' 100 6)],
          (WagerManager_init default_trading_config)
            \<lparr>active_wagers :=
               [(''w1'', \<lparr>wager = example_wager ''w1'' 100 6, created_at = 0, updated_at = 0,
                         strategy_name = ''simple_market_maker'', market_context = []\<rparr>)],
             total_placed := 1\<rparr>)"
proof -
  have p: "map_of (pending_placements in_flight) (external_id (example_wager ''w1'' 100 6))
       = Some (example_wager ''w1'' 100 5)"
    by (simp add: in_flight_def example_wager_def)
  have b: "place_wager_begin exact_ops in_flight (example_wager ''w1'' 100 6)
       = Inr (in_flight\<lparr>pending_placements := [(''w1'', example_wager ''w1'' 100 6)]\<rparr>)"
    by (rule second_attempt_begin)
  have r: "place_wager exact_ops in_flight (example_wager ''w1'' 100 6) ''simple_market_maker''
        None 0 (Returns (Some 7))
       = (Result (Some 7), [ApiPlaceWager (example_wager ''w1'' 100 6)],
          (WagerManager_init default_trading_config)
            \<lparr>active_wagers :=
               [(''w1'', \<lparr>wager = example_wager ''w1'' 100 6, created_at = 0, updated_at = 0,
                         strategy_name = ''simple_market_maker'', market_context = []\<rparr>)],
             total_placed := 1\<rparr>)"
    unfolding place_wager_def b
    by (simp add: place_wager_resume_def id_truthy_def in_flight_def WagerManager_init_def
        example_wager_def)
  show ?thesis
    using first_attempt_in_flight p b r by simp
qed

lemma checks_ignore_pending:
  "validate_wager (m\<lparr>pending_placements := p\<rparr>) w = validate_wager m w"
  "check_position_limits ops (m\<lparr>pending_placements := p\<rparr>) w = check_position_limits ops m w"
  by (simp_all add: validate_wager_def check_position_limits_def get_total_exposure_fl_def)

lemma place_wager_calls:
  "fst (snd (place_wager ops m w sn ctx now reply)) =
     (if validate_wager m w \<and> check_position_limits ops m w then [ApiPlaceWager w] else [])"
  by (auto simp: place_wager_def place_wager_begin_def split: prod.splits)

lemma overwrite_entry:
  assumes "k \<in> fst ` set al"
  shows "map_of (AList.update k v al) k = Some v"
    and "map fst (AList.update k v al) = map fst al"
    and "k' \<noteq> k \<Longrightarrow> map_of (AList.update k v al) k' = map_of al k'"
  using assms by (simp_all add: update_conv' update_keys)

text \<open>
  C3, amended. A placement attempt for an id that is already in the pending-placement
  set is not refused on that ground: the calls it makes are the same whatever the
  pending set holds, and it calls the transport's placement primitive, once, exactly
  when the wager passes local validation and the position-limit check. In that case
  it overwrites the pending entry: before the transport is called the entry of the
  id is this attempt's wager, in the place of the earlier one, and the other entries
  are as they were.
\<close>

theorem pending_set_not_consulted:
  assumes "external_id w \<in> fst ` set (pending_placements m)"
  shows "fst (snd (place_wager ops m w sn ctx now reply)) =
           (if validate_wager m w \<and> check_position_limits ops m w then [ApiPlaceWager w] else [])
    \<and> fst (snd (place_wager ops (m\<lparr>pending_placements := p\<rparr>) w sn ctx now reply)) =
        fst (snd (place_wager ops m w sn ctx now reply))
    \<and> (validate_wager m w \<and> check_position_limits ops m w \<longrightarrow>
        (\<exists>m'. place_wager_begin ops m w = Inr m'
           \<and> map_of (pending_placements m') (external_id w) = Some w
           \<and> map fst (pending_placements m') = map fst (pending_placements m)
           \<and> (\<forall>k. k \<noteq> external_id w \<longrightarrow>
                 map_of (pending_placements m') k = map_of (pending_placements m) k)
           \<and> active_wagers m' = active_wagers m))"
proof (intro conjI impI)
  show "fst (snd (place_wager ops m w sn ctx now reply)) =
      (if validate_wager m w \<and> check_position_limits ops m w then [ApiPlaceWager w] else [])"
    by (rule place_wager_calls)
  show "fst (snd (place_wager ops (m\<lparr>pending_placements := p\<rparr>) w sn ctx now reply)) =
      fst (snd (place_wager ops m w sn ctx now reply))"
    by (simp only: place_wager_calls checks_ignore_pending)
next
  let ?m' = "m\<lparr>pending_placements := AList.update (external_id w) w (pending_placements m)\<rparr>"
  assume ok: "validate_wager m w \<and> check_position_limits ops m w"
  have p: "pending_placements ?m' = AList.update (external_id w) w (pending_placements m)"
    by simp
  have "place_wager_begin ops m w = Inr ?m'"
    using ok by (simp add: place_wager_begin_def)
  moreover have "map_of (pending_placements ?m') (external_id w) = Some w"
    unfolding p by (rule overwrite_entry(1) [OF assms])
  moreover have "map fst (pending_placements ?m') = map fst (pending_placements m)"
    unfolding p by (rule overwrite_entry(2) [OF assms])
  moreover have "\<forall>k. k \<noteq> external_id w \<longrightarrow>
      map_of (pending_placements ?m') k = map_of (pending_placements m) k"
    unfolding p using overwrite_entry(3) [OF assms] by blast
  moreover have "active_wagers ?m' = active_wagers m" by simp
  ultimately show "\<exists>m'. place_wager_begin ops m w = Inr m'
           \<and> map_of (pending_placements m') (external_id w) = Some w
           \<and> map fst (pending_placements m') = map fst (pending_placements m)
           \<and> (\<forall>k. k \<noteq> external_id w \<longrightarrow>
                 map_of (pending_placements m') k = map_of (pending_placements m) k)
           \<and> active_wagers m' = active_wagers m"
    by (intro exI [of _ ?m'] conjI)
qed

theorem pending_set_not_consulted_witness:
  "external_id (example_wager ''w1'' 100 6) \<in> fst ` set (pending_placements in_flight)
   \<and> validate_wager in_flight (example_wager ''w1'' 100 6)
   \<and> check_position_limits exact_ops in_flight (example_wager ''w1'' 100 6)
   \<and> map_of (pending_placements in_flight) ''w1'' = Some (example_wager ''w1'' 100 5)
   \<and> fst (snd (place_wager exact_ops in_flight (example_wager ''w1'' 100 6)
                 ''simple_market_maker'' None 0 Raises))
       = [ApiPlaceWager (example_wager ''w1'' 100 6)]
   \<and> place_wager_begin exact_ops in_flight (example_wager ''w1'' 100 6)
       = Inr (in_flight\<lparr>pending_placements := [(''w1'', example_wager ''w1'' 100 6)]\<rparr>)"
proof -
  let ?w = "example_wager ''w1'' 100 6"
  have pend: "external_id ?w \<in> fst ` set (pending_placements in_flight)"
    by (simp add: in_flight_def example_wager_def)
  have old: "map_of (pending_placements in_flight) ''w1'' = Some (example_wager ''w1'' 100 5)"
    by (simp add: in_flight_def)
  have "fst (snd (place_wager exact_ops in_flight ?w ''simple_market_maker'' None 0 Raises)) =
      (if validate_wager in_flight ?w \<and> check_position_limits exact_ops in_flight ?w
       then [ApiPlaceWager ?w] else [])"
    using pending_set_not_consulted [OF pend, of exact_ops "''simple_market_maker''" None 0
        Raises "[]"]
    by (rule conjunct1)
  then have calls:
    "fst (snd (place_wager exact_ops in_flight ?w ''simple_market_maker'' None 0 Raises))
       = [ApiPlaceWager ?w]"
    using sample_checks(1,2) by simp
  show ?thesis
    using pend old sample_checks(1,2) calls second_attempt_begin by (intro conjI)
qed

lemma place_wager_over_exposure:
  "fadd ops (get_total_exposure_fl ops m) (stake w) > max_total_exposure (trading_config m) \<Longrightarrow>
   place_wager ops m w sn ctx now reply = (Result None, [], m)"
  by (simp add: place_wager_def place_wager_begin_def check_position_limits_def)

lemma risk_checked_place_rejected:
  "\<not> check_wager_risk ops rm m w (Some mc) \<or> \<not> validate_wager m w
     \<or> \<not> check_position_limits ops m w \<Longrightarrow>
   risk_checked_place ops rm m w sn mc now reply = (Result None, [], rm, m)"
  by (auto simp: risk_checked_place_def place_wager_refused)

lemma nearly_full_state:
  "nearly_full =
      (WagerManager_init (default_trading_config\<lparr>max_total_exposure := 12\<rparr>))
        \<lparr>active_wagers := [(''w1'', \<lparr>wager = example_wager ''w1'' 100 8, created_at = 0,
            updated_at = 0, strategy_name = ''simple_market_maker'', market_context = []\<rparr>)],
         total_placed := 1\<rparr>"
  by (simp add: nearly_full_def place_wager_def place_wager_begin_def place_wager_resume_def
      id_truthy_def validate_wager_def check_position_limits_def get_total_exposure_fl_def
      exact_ops_def WagerManager_init_def default_trading_config_def example_wager_def)

lemma nearly_full_over:
  "max_total_exposure (trading_config nearly_full)
     < fadd exact_ops (get_total_exposure_fl exact_ops nearly_full)
         (stake (example_wager ''w2'' 100 5))"
  by (simp add: nearly_full_state get_total_exposure_fl_def exact_ops_def WagerManager_init_def
      default_trading_config_def example_wager_def)

lemma nearly_full_risk_accepts:
  "check_wager_risk exact_ops sample_risk_manager nearly_full (example_wager ''w2'' 100 5)
     (Some [(''event_id'', PyInt 777)])"
  by (simp add: check_wager_risk_def nearly_full_state get_total_exposure_fl_def
      get_exposure_by_event_def exact_ops_def sample_risk_manager_def RiskManager_init_def
      default_risk_config_def WagerManager_init_def example_wager_def str_int_def)

text \<open>
  C4, as stated, fails for \<open>check_wager_risk\<close>: it does not consult
  \<open>max_total_exposure\<close>. With a stake of 8 active under a total-exposure limit of 12
  and the default risk configuration, a wager with a stake of 5 brings the total to
  13, over the limit, and \<open>check_wager_risk\<close> accepts it (its own bound is
  \<open>max_position_size * 10 = 1000\<close>).
\<close>

theorem risk_check_accepts_counterexample:
  "max_total_exposure (trading_config nearly_full)
     < fadd exact_ops (get_total_exposure_fl exact_ops nearly_full)
         (stake (example_wager ''w2'' 100 5))
   \<and> check_wager_risk exact_ops sample_risk_manager nearly_full (example_wager ''w2'' 100 5)
       (Some [(''event_id'', PyInt 777)])"
  using nearly_full_over nearly_full_risk_accepts by simp

text \<open>
  C4, amended. The position-limit check that \<open>place_wager\<close> makes before any transport
  call rejects every wager for which the sum of the current total exposure and the
  stake, as the float arithmetic computes it, exceeds \<open>max_total_exposure\<close>:
  \<open>place_wager\<close> returns \<open>None\<close> without a transport call and leaves the manager as it
  was, and so does the strategy's sequence of \<open>check_wager_risk\<close> and \<open>place_wager\<close>,
  any number of times. \<open>check_wager_risk\<close> itself rejects when that sum exceeds
  \<open>max_position_size * 10\<close>. A wager rejected by any of the checks leaves both
  managers as they were, and the risk manager is the same after every evaluation.
\<close>

theorem risk_evaluation:
  "(max_total_exposure (trading_config m)
      < fadd ops (get_total_exposure_fl ops m) (stake w) \<longrightarrow>
      \<not> check_position_limits ops m w
      \<and> place_wager ops m w sn ctx now reply = (Result None, [], m)
      \<and> risk_checked_place ops rm m w sn mc now reply = (Result None, [], rm, m)
      \<and> ((\<lambda>s. snd (snd (risk_checked_place ops (fst s) (snd s) w sn mc now reply))) ^^ n) (rm, m)
          = (rm, m))
   \<and> (fmul ops (max_position_size (config rm)) 10
        < fadd ops (get_total_exposure_fl ops m) (stake w) \<longrightarrow>
      \<not> check_wager_risk ops rm m w ctx)
   \<and> (\<not> check_wager_risk ops rm m w (Some mc) \<or> \<not> validate_wager m w
        \<or> \<not> check_position_limits ops m w \<longrightarrow>
      risk_checked_place ops rm m w sn mc now reply = (Result None, [], rm, m))
   \<and> fst (snd (snd (risk_checked_place ops rm m w sn mc now reply))) = rm"
proof -
  have rej: "\<not> check_wager_risk ops rm m w (Some mc) \<or> \<not> validate_wager m w
        \<or> \<not> check_position_limits ops m w \<Longrightarrow>
      risk_checked_place ops rm m w sn mc now reply = (Result None, [], rm, m)"
    by (rule risk_checked_place_rejected)
  have same: "fst (snd (snd (risk_checked_place ops rm m w sn mc now reply))) = rm"
    by (simp add: risk_checked_place_def split: prod.splits)
  have risk: "fmul ops (max_position_size (config rm)) 10
        < fadd ops (get_total_exposure_fl ops m) (stake w) \<Longrightarrow>
      \<not> check_wager_risk ops rm m w ctx"
    by (simp add: check_wager_risk_def)
  have total: "\<not> check_position_limits ops m w
      \<and> place_wager ops m w sn ctx now reply = (Result None, [], m)
      \<and> risk_checked_place ops rm m w sn mc now reply = (Result None, [], rm, m)
      \<and> ((\<lambda>s. snd (snd (risk_checked_place ops (fst s) (snd s) w sn mc now reply))) ^^ n) (rm, m)
          = (rm, m)"
    if over: "max_total_exposure (trading_config m)
      < fadd ops (get_total_exposure_fl ops m) (stake w)"
  proof -
    have no: "\<not> check_position_limits ops m w"
      using over by (simp add: check_position_limits_def)
    have one: "risk_checked_place ops rm m w sn mc now reply = (Result None, [], rm, m)"
      using no by (intro risk_checked_place_rejected) simp
    have "((\<lambda>s. snd (snd (risk_checked_place ops (fst s) (snd s) w sn mc now reply))) ^^ n)
        (rm, m) = (rm, m)"
      by (induction n) (simp_all add: one)
    then show ?thesis
      using no one place_wager_over_exposure [OF over] by simp
  qed
  show ?thesis
    using rej same risk total by blast
qed

theorem risk_evaluation_witness:
  "max_total_exposure (trading_config nearly_full)
     < fadd exact_ops (get_total_exposure_fl exact_ops nearly_full)
         (stake (example_wager ''w2'' 100 5))
   \<and> validate_wager nearly_full (example_wager ''w2'' 100 5)
   \<and> check_wager_risk exact_ops sample_risk_manager nearly_full (example_wager ''w2'' 100 5)
       (Some [(''event_id'', PyInt 777)])
   \<and> place_wager exact_ops nearly_full (example_wager ''w2'' 100 5) ''simple_market_maker''
        None 1 (Returns (Some 8)) = (Result None, [], nearly_full)
   \<and> risk_checked_place exact_ops sample_risk_manager nearly_full (example_wager ''w2'' 100 5)
        ''simple_market_maker'' [(''event_id'', PyInt 777)] 1 (Returns (Some 8))
       = (Result None, [], sample_risk_manager, nearly_full)
   \<and> fmul exact_ops (max_position_size (config sample_risk_manager)) 10
       < fadd exact_ops (get_total_exposure_fl exact_ops nearly_full)
           (stake (example_wager ''w3'' 100 2000))
   \<and> \<not> check_wager_risk exact_ops sample_risk_manager nearly_full
         (example_wager ''w3'' 100 2000) None"
proof -
  let ?w = "example_wager ''w2'' 100 5"
  let ?big = "example_wager ''w3'' 100 2000"
  have v: "validate_wager nearly_full ?w"
    by (simp add: nearly_full_state validate_wager_def WagerManager_init_def
        default_trading_config_def example_wager_def)
  have bound: "fmul exact_ops (max_position_size (config sample_risk_manager)) 10
       < fadd exact_ops (get_total_exposure_fl exact_ops nearly_full) (stake ?big)"
    by (simp add: nearly_full_state get_total_exposure_fl_def exact_ops_def
        sample_risk_manager_def RiskManager_init_def default_risk_config_def
        WagerManager_init_def example_wager_def)
  from risk_evaluation [of nearly_full exact_ops ?w "''simple_market_maker''" None 1
      "Returns (Some 8)" sample_risk_manager "[(''event_id'', PyInt 777)]" 0] nearly_full_over
  have a: "place_wager exact_ops nearly_full ?w ''simple_market_maker'' None 1 (Returns (Some 8))
        = (Result None, [], nearly_full)
      \<and> risk_checked_place exact_ops sample_risk_manager nearly_full ?w
          ''simple_market_maker'' [(''event_id'', PyInt 777)] 1 (Returns (Some 8))
        = (Result None, [], sample_risk_manager, nearly_full)"
    by simp
  from risk_evaluation [of nearly_full exact_ops ?big "''simple_market_maker''" None 1
      "Returns (Some 8)" sample_risk_manager "[]" 0] bound
  have b: "\<not> check_wager_risk exact_ops sample_risk_manager nearly_full ?big None"
    by simp
  show ?thesis
    using nearly_full_over v nearly_full_risk_accepts a b bound by simp
qed

lemma colliding_unique_id:
  "unique_selection_id rt ''-10.5'' (entry ''Over'' (Some (- 110)) v 12345678) = colliding_id rt"
  by (simp add: unique_selection_id_def colliding_id_def entry_def str_odds_def str_int_def
      str_nat.simps)

lemma colliding_groups:
  "group_step rt ''-10.5'' (group_step rt ''-10.5'' [] (entry ''Over'' (Some (- 110)) 100 12345678))
     (entry ''Over'' (Some (- 110)) 50 12345678)
   = [(''Over'', [level_data rt ''-10.5'' (entry ''Over'' (Some (- 110)) 100 12345678),
                  level_data rt ''-10.5'' (entry ''Over'' (Some (- 110)) 50 12345678)])]"
  by (simp add: group_step_def entry_def)

lemma colliding_sort:
  "sort_levels [level_data rt lv (entry nm (Some (- 110)) v oid),
                level_data rt lv (entry nm (Some (- 110)) v' oid)]
   = [level_data rt lv (entry nm (Some (- 110)) v oid),
      level_data rt lv (entry nm (Some (- 110)) v' oid)]"
  by (simp add: sort_levels_def level_data_def entry_def odds_key_def)

lemma colliding_level:
  "0 < v \<Longrightarrow> line_level rt ''Over'' (level_data rt ''-10.5'' (entry ''Over'' (Some (- 110)) v 12345678))
   = over_level rt v"
  using colliding_unique_id [of rt v]
  by (simp add: line_level_def level_data_def over_level_def display_value_def entry_def)

lemma colliding_level_id:
  "unique_id (level_data rt ''-10.5'' (entry ''Over'' (Some (- 110)) v 12345678)) = colliding_id rt"
  using colliding_unique_id [of rt v] by (simp add: level_data_def)

lemma colliding_line_result:
  "line_groups order_book = [] \<Longrightarrow> 
   process_line rt order_book colliding_line =
     order_book
       \<lparr>line_groups := [(''-10.5'', [(''Over'', [over_level rt 100, over_level rt 50])])],
        available_lines := available_lines order_book @ [''-10.5''],
        OrderBook.selections :=
          AList.update (colliding_id rt) (over_level rt 50) (OrderBook.selections order_book)\<rparr>"
  by (simp add: process_line_def colliding_line_def line_value_of_def flatten_groups_def
      colliding_groups store_name_def colliding_sort store_level_def colliding_level
      colliding_level_id Let_def)

lemma colliding_lines_result:
  "process_market_lines rt order_book [colliding_line] =
     order_book
       \<lparr>line_groups := [(''-10.5'', [(''Over'', [over_level rt 100, over_level rt 50])])],
        available_lines := sort_lines (py_float rt) [''-10.5''],
        OrderBook.selections :=
          AList.update (colliding_id rt) (over_level rt 50) (OrderBook.selections order_book)\<rparr>"
  by (simp add: process_market_lines_def colliding_line_result)

text \<open>
  C6. The book is meant to hold every level of \<^verbatim>\<open>line_groups\<close> in \<^verbatim>\<open>selections\<close>
  under its id. Refreshing any book, under any runtime, with the line of the two
  \<open>Over\<close> offers leaves both levels in the line group and only the second one in
  \<^verbatim>\<open>selections\<close>: the ids are equal and the second assignment replaces the first.
\<close>

theorem colliding_ids_break_consistency:
  "\<not> line_groups_in_selections
        (refresh_order_book rt order_book
           \<lparr>Market.selections = [], market_lines = [colliding_line]\<rparr>)
   \<and> levels_of (refresh_order_book rt order_book
           \<lparr>Market.selections = [], market_lines = [colliding_line]\<rparr>)
       = [over_level rt 100, over_level rt 50]
   \<and> OrderBook.selections (refresh_order_book rt order_book
           \<lparr>Market.selections = [], market_lines = [colliding_line]\<rparr>)
       = [(colliding_id rt, over_level rt 50)]"
  by (simp add: refresh_order_book_def calculate_order_book_metrics_def
      process_market_selections_def colliding_lines_result line_groups_in_selections_def
      levels_of_def over_level_def Let_def)

text \<open>
  A second way to the same state: an update without selections and without lines
  clears \<^verbatim>\<open>selections\<close> and keeps the line groups of the book as they were.
\<close>

lemma stale_line_groups:
  "process_market_selections rt order_book \<lparr>Market.selections = [], market_lines = []\<rparr>
     = order_book\<lparr>OrderBook.selections := [], last_update := time_time rt\<rparr>"
  by (simp add: process_market_selections_def)

lemma lined_book_state:
  "lined_book =
     sample_book
       \<lparr>line_groups :=
          [(''-10.5'', [(''Over'', [over_level sample_runtime 100, over_level sample_runtime 50])])],
        available_lines := sort_lines (py_float sample_runtime) [''-10.5''],
        OrderBook.selections := [(colliding_id sample_runtime, over_level sample_runtime 50)],
        last_update := time_time sample_runtime,
        best_selection := Some (over_level sample_runtime 50),
        spread := 0,
        total_volume := 50\<rparr>"
  by (simp add: lined_book_def refresh_order_book_def calculate_order_book_metrics_def
      process_market_selections_def colliding_lines_result over_level_def Let_def
      sample_book_def OrderBook_init_def)

lemma empty_update:
  "refresh_order_book rt order_book \<lparr>Market.selections = [], market_lines = []\<rparr>
     = order_book\<lparr>OrderBook.selections := [], last_update := time_time rt,
                   best_selection := None, spread := 0, total_volume := 0\<rparr>"
  by (simp add: refresh_order_book_def calculate_order_book_metrics_def
      process_market_selections_def)

text \<open>
  C10, as stated, fails on the path of an update: before it looks at the market lines,
  the update clears \<^verbatim>\<open>selections\<close>, and afterwards it restamps the book and resets
  the metrics. A book holding the two \<open>Over\<close> levels, updated by a market with an
  empty list of market lines, keeps its line groups and loses its selections.
\<close>

theorem empty_lines_update_counterexample:
  "OrderBook.selections lined_book = [(colliding_id sample_runtime, over_level sample_runtime 50)]
   \<and> OrderBook.selections
        (refresh_order_book sample_runtime lined_book
           \<lparr>Market.selections = [], market_lines = []\<rparr>) = []
   \<and> total_volume lined_book = 50
   \<and> total_volume
        (refresh_order_book sample_runtime lined_book
           \<lparr>Market.selections = [], market_lines = []\<rparr>) = 0
   \<and> line_groups
        (refresh_order_book sample_runtime lined_book
           \<lparr>Market.selections = [], market_lines = []\<rparr>)
       = [(''-10.5'', [(''Over'', [over_level sample_runtime 100, over_level sample_runtime 50])])]"
  by (simp add: empty_update) (simp add: lined_book_state)

text \<open>
  C10, amended. A market update whose list of market lines is empty, the market having
  no selections either, leaves \<^verbatim>\<open>line_groups\<close> and \<^verbatim>\<open>available_lines\<close> as they were:
  the line data is cleared only when at least one line is present. The rest of the
  book changes: \<^verbatim>\<open>selections\<close> is cleared, \<^verbatim>\<open>last_update\<close> is restamped, and the
  metrics are reset. The line-grouped algorithm itself, given an empty list, returns
  the book unchanged.
\<close>

theorem empty_market_lines_update:
  "refresh_order_book rt order_book \<lparr>Market.selections = [], market_lines = []\<rparr>
     = order_book\<lparr>OrderBook.selections := [], last_update := time_time rt,
                   best_selection := None, spread := 0, total_volume := 0\<rparr>
   \<and> line_groups (refresh_order_book rt order_book
         \<lparr>Market.selections = [], market_lines = []\<rparr>) = line_groups order_book
   \<and> available_lines (refresh_order_book rt order_book
         \<lparr>Market.selections = [], market_lines = []\<rparr>) = available_lines order_book
   \<and> process_market_selections rt order_book \<lparr>Market.selections = [], market_lines = []\<rparr>
       = order_book\<lparr>OrderBook.selections := [], last_update := time_time rt\<rparr>
   \<and> process_market_lines rt order_book [] = order_book"
  by (simp add: empty_update) (simp add: process_market_selections_def process_market_lines_def)

text \<open>
  C8, as stated, fails where an entry replaces a same-name entry: the stored size is
  not the replacing entry's own display size. \<open>Team A\<close> at \<open>-150\<close> with value 500,
  then at the better \<open>-110\<close> with value 100, leaves one level at \<open>-110\<close> with size 500.
\<close>

theorem replaced_size_counterexample:
  "OrderBook.selections (process_direct_selections sample_runtime sample_book
         [Single (entry ''Team A'' (Some (- 150)) 500 7),
          Single (entry ''Team A'' (Some (- 110)) 100 7)])
     = [(7, \<lparr>selection_id = 7, selection_name = ''Team A'', SelectionLevel.odds = Some (- 110),
             size' = 500, timestamp = 0\<rparr>)]
   \<and> is_better_odds (Some (- 110)) (Some (- 150))
   \<and> display_value (Some (- 110)) 100 = 100"
  by (simp add: process_direct_selections_def best_selections_of_def flatten_groups_def
      best_step_def display_value_def direct_level_def sample_book_def OrderBook_init_def
      sample_runtime_def entry_def)

lemma best_selections_snoc:
  "best_selections_of rt (groups @ [Single e]) = best_step rt (best_selections_of rt groups) e"
  by (simp add: best_selections_of_def flatten_groups_def)

lemma level_for_snoc_new:
  assumes "name e \<noteq> []" and "level_for rt groups (name e) = None"
  shows "map_option size' (level_for rt (groups @ [Single e]) (name e))
           = Some (if Selection.odds e = None then 0 else if value' e > 0 then value' e else 1)"
  using assms
  by (simp add: level_for_def best_selections_snoc best_step_def update_conv' direct_level_def
      display_value_def)

lemma level_for_snoc_better:
  assumes "name e \<noteq> []" and "level_for rt groups (name e) = Some old"
    and "is_better_odds (Selection.odds e) (SelectionLevel.odds old)"
  shows "map_option size' (level_for rt (groups @ [Single e]) (name e))
           = Some (max (if value' e > 0 then value' e else 1) (size' old))"
    and "map_option SelectionLevel.odds (level_for rt (groups @ [Single e]) (name e))
           = Some (Selection.odds e)"
proof -
  from assms(2) obtain cur where cur: "map_of (best_selections_of rt groups) (name e) = Some cur"
    and old: "old = direct_level rt (name e, cur)"
    by (auto simp: level_for_def)
  have priced: "Selection.odds e \<noteq> None"
    using assms(3) by (cases "Selection.odds e"; cases "SelectionLevel.odds old") simp_all
  have better: "is_better_odds (Selection.odds e) (Selection.odds cur)"
    using assms(3) by (simp add: old direct_level_def)
  show "map_option size' (level_for rt (groups @ [Single e]) (name e))
           = Some (max (if value' e > 0 then value' e else 1) (size' old))"
    using assms(1) cur better priced
    by (auto simp: level_for_def best_selections_snoc best_step_def update_conv' direct_level_def
        display_value_def old Let_def)
  show "map_option SelectionLevel.odds (level_for rt (groups @ [Single e]) (name e))
           = Some (Selection.odds e)"
    using assms(1) cur better
    by (simp add: level_for_def best_selections_snoc best_step_def update_conv' direct_level_def
        Let_def)
qed

lemma level_for_snoc_kept:
  assumes "level_for rt groups (name e) = Some old"
    and "\<not> is_better_odds (Selection.odds e) (SelectionLevel.odds old)"
  shows "level_for rt (groups @ [Single e]) (name e) = Some old"
proof -
  from assms(1) obtain cur where cur: "map_of (best_selections_of rt groups) (name e) = Some cur"
    and old: "old = direct_level rt (name e, cur)"
    by (auto simp: level_for_def)
  have "\<not> is_better_odds (Selection.odds e) (Selection.odds cur)"
    using assms(2) by (simp add: old direct_level_def)
  then show ?thesis
    using cur by (auto simp: level_for_def best_selections_snoc best_step_def old)
qed

text \<open>
  C8, amended. For a named entry processed after the entries \<open>groups\<close>: if it is the
  first of its name, the stored size is 0 when its odds are null, and otherwise its
  reported value when positive and 1 when not; if it replaces the level of its name
  because its odds are better, the stored odds are its own and the stored size is the
  larger of its display size and the size already stored; otherwise the level of its
  name stays as it was.
\<close>

theorem stored_size:
  assumes "name e \<noteq> []"
  shows "(level_for rt groups (name e) = None \<longrightarrow>
            map_option size' (level_for rt (groups @ [Single e]) (name e))
              = Some (if Selection.odds e = None then 0
                      else if value' e > 0 then value' e else 1))
    \<and> (\<forall>old. level_for rt groups (name e) = Some old
             \<and> is_better_odds (Selection.odds e) (SelectionLevel.odds old) \<longrightarrow>
            map_option size' (level_for rt (groups @ [Single e]) (name e))
              = Some (max (if value' e > 0 then value' e else 1) (size' old))
            \<and> map_option SelectionLevel.odds (level_for rt (groups @ [Single e]) (name e))
              = Some (Selection.odds e))
    \<and> (\<forall>old. level_for rt groups (name e) = Some old
             \<and> \<not> is_better_odds (Selection.odds e) (SelectionLevel.odds old) \<longrightarrow>
            level_for rt (groups @ [Single e]) (name e) = Some old)"
  using assms level_for_snoc_new level_for_snoc_better level_for_snoc_kept by blast

lemma sample_level_for:
  "level_for sample_runtime [] ''Team A'' = None"
  "level_for sample_runtime [Single (entry ''Team A'' (Some (- 150)) 500 7)] ''Team A''
     = Some \<lparr>selection_id = 7, selection_name = ''Team A'', SelectionLevel.odds = Some (- 150),
             size' = 500, timestamp = 0\<rparr>"
  by (simp_all add: level_for_def best_selections_of_def flatten_groups_def best_step_def
      display_value_def direct_level_def sample_runtime_def entry_def)

theorem stored_size_witness:
  "name (entry ''Team A'' (Some (- 150)) 500 7) \<noteq> []
   \<and> level_for sample_runtime [] ''Team A'' = None
   \<and> map_option size'
        (level_for sample_runtime ([] @ [Single (entry ''Team A'' (Some (- 150)) 500 7)]) ''Team A'')
       = Some 500
   \<and> is_better_odds (Some (- 110)) (Some (- 150))
   \<and> map_option size'
        (level_for sample_runtime
           ([Single (entry ''Team A'' (Some (- 150)) 500 7)]
            @ [Single (entry ''Team A'' (Some (- 110)) 100 7)]) ''Team A'')
       = Some 500
   \<and> \<not> is_better_odds (Some (- 200)) (Some (- 150))
   \<and> map_option size'
        (level_for sample_runtime
           ([Single (entry ''Team A'' (Some (- 150)) 500 7)]
            @ [Single (entry ''Team A'' (Some (- 200)) 900 7)]) ''Team A'')
       = Some 500"
proof -
  let ?old = "\<lparr>selection_id = 7, selection_name = ''Team A'', SelectionLevel.odds = Some (- 150),
             size' = 500, timestamp = 0\<rparr>"
  have n: "name (entry nm price v oid) = nm" "Selection.odds (entry nm price v oid) = price"
    "value' (entry nm price v oid) = v" for nm price v oid
    by (simp_all add: entry_def)
  have ne: "name (entry ''Team A'' (Some (- 150)) 500 7) \<noteq> []" by (simp add: n)
  have first: "map_option size'
        (level_for sample_runtime ([] @ [Single (entry ''Team A'' (Some (- 150)) 500 7)]) ''Team A'')
       = Some 500"
    using stored_size [of "entry ''Team A'' (Some (- 150)) 500 7" sample_runtime "[]"]
      sample_level_for(1)
    by (simp add: n)
  have better: "map_option size'
        (level_for sample_runtime
           ([Single (entry ''Team A'' (Some (- 150)) 500 7)]
            @ [Single (entry ''Team A'' (Some (- 110)) 100 7)]) ''Team A'')
       = Some 500"
    using stored_size [of "entry ''Team A'' (Some (- 110)) 100 7" sample_runtime
        "[Single (entry ''Team A'' (Some (- 150)) 500 7)]"] sample_level_for(2)
    by (simp add: n)
  have kept: "map_option size'
        (level_for sample_runtime
           ([Single (entry ''Team A'' (Some (- 150)) 500 7)]
            @ [Single (entry ''Team A'' (Some (- 200)) 900 7)]) ''Team A'')
       = Some 500"
    using stored_size [of "entry ''Team A'' (Some (- 200)) 900 7" sample_runtime
        "[Single (entry ''Team A'' (Some (- 150)) 500 7)]"] sample_level_for(2)
    by (simp add: n)
  show ?thesis
    using ne first better kept sample_level_for(1) by simp
qed

text \<open>
  Every level the flat-selection algorithm stores in a cleared \<^verbatim>\<open>selections\<close> table
  is the level of some name.
\<close>

lemma best_step_keys:
  "distinct (map fst best) \<Longrightarrow> distinct (map fst (best_step rt best e))"
  by (auto simp: best_step_def Let_def distinct_update split: option.splits)

lemma best_selections_keys: "distinct (map fst (best_selections_of rt groups))"
proof -
  have "distinct (map fst best) \<Longrightarrow> distinct (map fst (foldl (best_step rt) best es))" for best es
    by (induction es arbitrary: best) (simp_all add: best_step_keys)
  then show ?thesis by (simp add: best_selections_of_def)
qed

lemma update_entries: "set (AList.update k v al) \<subseteq> insert (k, v) (set al)"
  by (induction al) auto

lemma stored_entries:
  "p \<in> set (foldl (\<lambda>sels item. AList.update (key item) (mk item) sels) init items) \<Longrightarrow>
   p \<in> set init \<or> (\<exists>item\<in>set items. p = (key item, mk item))"
proof (induction items arbitrary: init)
  case Nil
  then show ?case by simp
next
  case (Cons item items)
  from Cons.IH [of "AList.update (key item) (mk item) init"] Cons.prems
  have "p \<in> set (AList.update (key item) (mk item) init)
        \<or> (\<exists>item\<in>set items. p = (key item, mk item))"
    by simp
  then show ?case
    using update_entries [of "key item" "mk item" init] by auto
qed

lemma stored_levels_are_level_for:
  assumes "(i, lvl) \<in> set (OrderBook.selections
             (process_direct_selections rt (ob\<lparr>OrderBook.selections := []\<rparr>) groups))"
  shows "\<exists>nm. level_for rt groups nm = Some lvl"
proof -
  from assms stored_entries [of "(i, lvl)" "\<lambda>item. outcome_id (snd item)" "direct_level rt" "[]"
      "best_selections_of rt groups"]
  obtain item where item: "item \<in> set (best_selections_of rt groups)" "lvl = direct_level rt item"
    by (auto simp: process_direct_selections_def)
  obtain nm d where nd: "item = (nm, d)" by (cases item)
  with item(1) best_selections_keys [of rt groups]
  have "map_of (best_selections_of rt groups) nm = Some d" by simp
  then have "level_for rt groups nm = Some lvl"
    by (simp add: level_for_def item(2) nd)
  then show ?thesis ..
qed

lemma line_keys_update:
  "line_keys (ob\<lparr>line_groups := AList.update lv g (line_groups ob)\<rparr>) = insert lv (line_keys ob)"
  by (simp add: line_keys_def dom_update)

lemma line_keys_lookup: "(map_of (line_groups ob) lv = None) = (lv \<notin> line_keys ob)"
  by (simp add: line_keys_def map_of_eq_None_iff)

lemma store_level_lines:
  "available_lines (store_level rt lv nm ob d) = available_lines ob"
  "line_keys (store_level rt lv nm ob d) = insert lv (line_keys ob)"
  by (simp_all add: store_level_def Let_def line_keys_def dom_update)

lemma foldl_store_level_lines:
  "available_lines (foldl (store_level rt lv nm) ob ds) = available_lines ob
   \<and> line_keys (foldl (store_level rt lv nm) ob ds) \<subseteq> insert lv (line_keys ob)
   \<and> line_keys ob \<subseteq> line_keys (foldl (store_level rt lv nm) ob ds)"
proof (induction ds arbitrary: ob)
  case Nil
  show ?case by auto
next
  case (Cons d ds)
  from Cons.IH [of "store_level rt lv nm ob d"]
  show ?case by (auto simp: store_level_lines)
qed

lemma store_name_lines:
  "available_lines (store_name rt lv ob item) = available_lines ob
   \<and> line_keys (store_name rt lv ob item) \<subseteq> insert lv (line_keys ob)
   \<and> line_keys ob \<subseteq> line_keys (store_name rt lv ob item)"
proof -
  define grp where "grp = (case map_of (line_groups ob) lv of None \<Rightarrow> [] | Some g \<Rightarrow> g)"
  define ob1 where "ob1 = (if map_of grp (fst item) = None
                 then ob\<lparr>line_groups := AList.update lv (AList.update (fst item) [] grp) (line_groups ob)\<rparr>
                 else ob)"
  have a: "available_lines ob1 = available_lines ob" by (simp add: ob1_def)
  have k: "line_keys ob1 \<subseteq> insert lv (line_keys ob)" "line_keys ob \<subseteq> line_keys ob1"
    by (auto simp: ob1_def line_keys_update)
  have eq: "store_name rt lv ob item = foldl (store_level rt lv (fst item)) ob1 (sort_levels (snd item))"
    by (simp add: store_name_def ob1_def grp_def Let_def)
  from foldl_store_level_lines [of rt lv "fst item" ob1 "sort_levels (snd item)"] a k
  show ?thesis
    unfolding eq by (auto simp: a)
qed

lemma foldl_store_name_lines:
  "available_lines (foldl (store_name rt lv) ob items) = available_lines ob
   \<and> line_keys (foldl (store_name rt lv) ob items) \<subseteq> insert lv (line_keys ob)
   \<and> line_keys ob \<subseteq> line_keys (foldl (store_name rt lv) ob items)"
proof (induction items arbitrary: ob)
  case Nil
  show ?case by auto
next
  case (Cons item items)
  from Cons.IH [of "store_name rt lv ob item"] store_name_lines [of rt lv ob item]
  show ?case by auto
qed

lemma process_line_lines:
  assumes "lines_match ob"
  shows "lines_match (process_line rt ob ml)
    \<and> set (available_lines (process_line rt ob ml))
           = insert (line_value_of ml) (set (available_lines ob))"
proof -
  let ?lv = "line_value_of ml"
  define ob1 where "ob1 = (if map_of (line_groups ob) ?lv = None
                 then ob\<lparr>line_groups := AList.update ?lv [] (line_groups ob),
                         available_lines := available_lines ob @ [?lv]\<rparr>
                 else ob)"
  have m1: "lines_match ob1" and has: "?lv \<in> line_keys ob1"
    and s1: "set (available_lines ob1) = insert ?lv (set (available_lines ob))"
    using assms
    by (auto simp: ob1_def lines_match_def line_keys_lookup line_keys_def dom_update)
  have eq: "process_line rt ob ml =
      foldl (store_name rt ?lv) ob1
        (foldl (group_step rt ?lv) [] (flatten_groups (MarketLine.selections ml)))"
    by (simp add: process_line_def ob1_def Let_def)
  define ob2 where "ob2 = process_line rt ob ml"
  from foldl_store_name_lines [of rt ?lv ob1
      "foldl (group_step rt ?lv) [] (flatten_groups (MarketLine.selections ml))"]
  have a2: "available_lines ob2 = available_lines ob1"
    and k2: "line_keys ob2 \<subseteq> insert ?lv (line_keys ob1)" "line_keys ob1 \<subseteq> line_keys ob2"
    unfolding ob2_def eq by simp_all
  from k2 has have "line_keys ob2 = line_keys ob1" by blast
  with a2 m1 s1 show ?thesis
    unfolding ob2_def [symmetric] by (simp add: lines_match_def)
qed

lemma foldl_process_line_lines:
  "lines_match ob \<Longrightarrow>
   lines_match (foldl (process_line rt) ob mls)
   \<and> set (available_lines (foldl (process_line rt) ob mls))
       = line_value_of ` set mls \<union> set (available_lines ob)"
proof (induction mls arbitrary: ob)
  case Nil
  then show ?case by simp
next
  case (Cons ml mls)
  from process_line_lines [OF Cons.prems, of rt ml] Cons.IH [of "process_line rt ob ml"]
  show ?case by auto
qed

lemma process_market_lines_available:
  assumes "mls \<noteq> []"
  shows "\<exists>ls. set ls = line_value_of ` set mls \<and> distinct ls
           \<and> available_lines (process_market_lines rt ob mls) = sort_lines (py_float rt) ls"
proof -
  let ?ob0 = "ob\<lparr>line_groups := [], available_lines := []\<rparr>"
  have "lines_match ?ob0" by (simp add: lines_match_def line_keys_def)
  from foldl_process_line_lines [OF this, of rt mls]
  have m: "lines_match (foldl (process_line rt) ?ob0 mls)"
    and "set (available_lines (foldl (process_line rt) ?ob0 mls)) = line_value_of ` set mls"
    by simp_all
  moreover from m have "distinct (available_lines (foldl (process_line rt) ?ob0 mls))"
    by (simp add: lines_match_def)
  moreover have "available_lines (process_market_lines rt ob mls)
      = sort_lines (py_float rt) (available_lines (foldl (process_line rt) ?ob0 mls))"
    using assms by (simp add: process_market_lines_def Let_def)
  ultimately show ?thesis by blast
qed

lemma sort_lines_set: "set (sort_lines f ls) = set ls" "distinct (sort_lines f ls) = distinct ls"
  by (simp_all add: sort_lines_def)

lemma line_key_le:
  assumes "line_key f x \<noteq> None" and "line_key f y \<noteq> None"
    and "the (line_key f x) \<le> the (line_key f y)"
  shows "numeric_first f x y"
  using assms
  by (auto simp: line_key_def numeric_first_def split: if_splits)

lemma sort_lines_numeric:
  assumes "\<forall>x\<in>set ls. x = ''N/A'' \<or> f x \<noteq> None"
  shows "sorted_wrt (numeric_first f) (sort_lines f ls)"
proof -
  have keys: "\<forall>x\<in>set ls. line_key f x \<noteq> None"
    using assms by (auto simp: line_key_def)
  then have eq: "sort_lines f ls = sort_key (\<lambda>x. the (line_key f x)) ls"
    by (auto simp: sort_lines_def)
  have "sorted (map (\<lambda>x. the (line_key f x)) (sort_key (\<lambda>x. the (line_key f x)) ls))"
    by (rule sorted_sort_key)
  then have "sorted_wrt (\<lambda>x y. the (line_key f x) \<le> the (line_key f y))
               (sort_key (\<lambda>x. the (line_key f x)) ls)"
    by (simp add: sorted_map)
  then have "sorted_wrt (numeric_first f) (sort_key (\<lambda>x. the (line_key f x)) ls)"
    by (rule sorted_wrt_mono_rel [rotated]) (use keys in \<open>auto intro: line_key_le\<close>)
  then show ?thesis by (simp add: eq)
qed

lemma sort_lines_alphabetical:
  assumes "\<exists>x\<in>set ls. x \<noteq> ''N/A'' \<and> f x = None"
  shows "sort_lines f ls = sort ls"
  using assms by (force simp: sort_lines_def line_key_def)

lemma sample_floats:
  "float_decimal ''2.5'' = Some (5 / 2)" "float_decimal ''-1.5'' = Some (- (3 / 2))"
  "float_decimal ''0.5'' = Some (1 / 2)" "float_decimal ''9'' = Some 9"
  "float_decimal ''10'' = Some 10" "float_decimal ''None'' = None"
  by (simp_all add: float_decimal_def unsigned_decimal_def digit_value_def)

lemma example_lines_sorted:
  "available_lines (process_market_lines sample_runtime ob example_lines)
     = [''-1.5'', ''0.5'', ''2.5'', ''N/A'']"
  by (simp add: process_market_lines_def process_line_def example_lines_def bare_line_def
      line_value_of_def flatten_groups_def Let_def
      sort_lines_def line_key_def sample_runtime_def float_decimal_def unsigned_decimal_def
      digit_value_def)

lemma fallback_lines_sorted:
  "available_lines (process_market_lines sample_runtime sample_book
       [bare_line ''9'', bare_line ''10'', bare_line ''None''])
     = [''10'', ''9'', ''None'']"
  by (simp add: process_market_lines_def process_line_def bare_line_def
      line_value_of_def flatten_groups_def Let_def sample_book_def OrderBook_init_def
      sort_lines_def line_key_def sample_runtime_def float_decimal_def unsigned_decimal_def
      digit_value_def)

text \<open>
  C7, as stated, fails when a line value other than \<open>N/A\<close> is not numeric: the whole
  list is then sorted as strings. With the lines 9, 10 and a null line (text \<open>None\<close>)
  the result is \<open>10, 9, None\<close>, the numeric values out of numeric order.
\<close>

theorem alphabetical_fallback_counterexample:
  "available_lines (process_market_lines sample_runtime sample_book
       [bare_line ''9'', bare_line ''10'', bare_line ''None''])
     = [''10'', ''9'', ''None'']
   \<and> py_float sample_runtime ''10'' = Some 10
   \<and> py_float sample_runtime ''9'' = Some 9
   \<and> \<not> sorted_wrt (numeric_first (py_float sample_runtime))
         (available_lines (process_market_lines sample_runtime sample_book
            [bare_line ''9'', bare_line ''10'', bare_line ''None'']))"
proof -
  have r: "available_lines (process_market_lines sample_runtime sample_book
       [bare_line ''9'', bare_line ''10'', bare_line ''None'']) = [''10'', ''9'', ''None'']"
    by (rule fallback_lines_sorted)
  have f: "py_float sample_runtime ''10'' = Some 10" "py_float sample_runtime ''9'' = Some 9"
    by (simp_all add: sample_runtime_def float_decimal_def unsigned_decimal_def digit_value_def)
  show ?thesis
    unfolding r using f by (simp add: numeric_first_def)
qed

text \<open>
  C7, amended. After the line-grouped algorithm has processed a non-empty list of
  market lines, \<^verbatim>\<open>available_lines\<close> holds each line value once. If every line value
  is \<open>N/A\<close> or numeric, the list is in the specification's order: numeric values
  ascending, \<open>N/A\<close> last. If some line value other than \<open>N/A\<close> is not numeric, the
  list is in alphabetical order. The lines 2.5, N/A, -1.5, 0.5 give
  \<open>-1.5, 0.5, 2.5, N/A\<close>.
\<close>

theorem available_lines_sorted:
  assumes "mls \<noteq> []"
  shows "((\<forall>ml\<in>set mls. line_value_of ml = ''N/A'' \<or> py_float rt (line_value_of ml) \<noteq> None)
            \<longrightarrow> sorted_wrt (numeric_first (py_float rt))
                  (available_lines (process_market_lines rt ob mls)))
    \<and> ((\<exists>ml\<in>set mls. line_value_of ml \<noteq> ''N/A'' \<and> py_float rt (line_value_of ml) = None)
            \<longrightarrow> sorted (available_lines (process_market_lines rt ob mls)))
    \<and> set (available_lines (process_market_lines rt ob mls)) = line_value_of ` set mls
    \<and> distinct (available_lines (process_market_lines rt ob mls))
    \<and> available_lines (process_market_lines sample_runtime ob example_lines)
        = [''-1.5'', ''0.5'', ''2.5'', ''N/A'']"
proof -
  from process_market_lines_available [OF assms, of rt ob]
  obtain ls where ls: "set ls = line_value_of ` set mls" "distinct ls"
    and av: "available_lines (process_market_lines rt ob mls) = sort_lines (py_float rt) ls"
    by blast
  have num: "(\<forall>ml\<in>set mls. line_value_of ml = ''N/A'' \<or> py_float rt (line_value_of ml) \<noteq> None)
      \<Longrightarrow> sorted_wrt (numeric_first (py_float rt)) (sort_lines (py_float rt) ls)"
    by (rule sort_lines_numeric) (use ls in auto)
  have alpha: "(\<exists>ml\<in>set mls. line_value_of ml \<noteq> ''N/A'' \<and> py_float rt (line_value_of ml) = None)
      \<Longrightarrow> sorted (sort_lines (py_float rt) ls)"
  proof -
    assume "\<exists>ml\<in>set mls. line_value_of ml \<noteq> ''N/A'' \<and> py_float rt (line_value_of ml) = None"
    then have "\<exists>x\<in>set ls. x \<noteq> ''N/A'' \<and> py_float rt x = None"
      using ls by auto
    then have "sort_lines (py_float rt) ls = sort ls" by (rule sort_lines_alphabetical)
    then show ?thesis by simp
  qed
  show ?thesis
    using num alpha ls by (simp add: av sort_lines_set example_lines_sorted)
qed

theorem available_lines_sorted_witness:
  "example_lines \<noteq> []
   \<and> map line_value_of example_lines = [''2.5'', ''N/A'', ''-1.5'', ''0.5'']
   \<and> map (py_float sample_runtime) [''2.5'', ''-1.5'', ''0.5'']
       = [Some (5 / 2), Some (- (3 / 2)), Some (1 / 2)]
   \<and> sorted_wrt (numeric_first (py_float sample_runtime)) [''-1.5'', ''0.5'', ''2.5'', ''N/A'']
   \<and> map line_value_of [bare_line ''9'', bare_line ''10'', bare_line ''None'']
       = [''9'', ''10'', ''None'']
   \<and> py_float sample_runtime ''None'' = None
   \<and> sorted [''10'', ''9'', ''None'']"
proof -
  have ne: "example_lines \<noteq> []" by (simp add: example_lines_def)
  have vals: "map line_value_of example_lines = [''2.5'', ''N/A'', ''-1.5'', ''0.5'']"
    by (simp add: example_lines_def bare_line_def line_value_of_def)
  have floats: "map (py_float sample_runtime) [''2.5'', ''-1.5'', ''0.5'']
       = [Some (5 / 2), Some (- (3 / 2)), Some (1 / 2)]"
    by (simp add: sample_runtime_def sample_floats)
  have parse: "\<forall>ml\<in>set example_lines. line_value_of ml = ''N/A''
          \<or> py_float sample_runtime (line_value_of ml) \<noteq> None"
    by (simp add: example_lines_def bare_line_def line_value_of_def sample_runtime_def
        sample_floats del: not_None_eq)
  have ne2: "[bare_line ''9'', bare_line ''10'', bare_line ''None''] \<noteq> []" by simp
  have vals2: "map line_value_of [bare_line ''9'', bare_line ''10'', bare_line ''None'']
       = [''9'', ''10'', ''None'']"
    by (simp add: bare_line_def line_value_of_def)
  have none: "py_float sample_runtime ''None'' = None"
    by (simp add: sample_runtime_def sample_floats)
  have bad: "\<exists>ml\<in>set [bare_line ''9'', bare_line ''10'', bare_line ''None''].
          line_value_of ml \<noteq> ''N/A'' \<and> py_float sample_runtime (line_value_of ml) = None"
    by (simp add: bare_line_def line_value_of_def sample_runtime_def sample_floats)
  have r: "available_lines (process_market_lines sample_runtime sample_book
       [bare_line ''9'', bare_line ''10'', bare_line ''None'']) = [''10'', ''9'', ''None'']"
    by (rule fallback_lines_sorted)
  from available_lines_sorted [OF ne, of sample_runtime sample_book] parse
  have "sorted_wrt (numeric_first (py_float sample_runtime)) [''-1.5'', ''0.5'', ''2.5'', ''N/A'']"
    by (simp add: example_lines_sorted)
  moreover from available_lines_sorted [OF ne2, of sample_runtime sample_book] bad
  have "sorted [''10'', ''9'', ''None'']"
    unfolding r by blast
  ultimately show ?thesis using ne vals floats vals2 none by blast
qed






end
